theory Spec2Isabelle
  imports Complex_Main "HOL-Library.Word"
begin

section \<open>JSON values as the decompiler reads them\<close>

text \<open>
  \<^verbatim>\<open>R2pdcCmdDecompiler::decompileAt\<close> reads the backend's answer through Qt's JSON classes.
  A \<^verbatim>\<open>QJsonValue\<close> is one of seven kinds; a number is a double, modelled by the rational
  it denotes. A \<^verbatim>\<open>QJsonObject\<close> is a list of key/value pairs read by key, a
  \<^verbatim>\<open>QJsonArray\<close> a list of values.
\<close>

datatype QJsonValue =
    JNull
  | JBool bool
  | JDouble rat
  | JString string
  | JArray "QJsonValue list"
  | JObject "(string \<times> QJsonValue) list"
  | JUndefined

type_synonym QJsonObject = "(string \<times> QJsonValue) list"
type_synonym QJsonArray = "QJsonValue list"

text \<open>
  \<^verbatim>\<open>R2Task::getResultJson()\<close> hands back a \<^verbatim>\<open>QJsonDocument\<close>: null when the text
  did not parse, otherwise an array or an object.
\<close>

datatype QJsonDocument = DocNull | DocArray QJsonArray | DocObject QJsonObject

text \<open>\<^verbatim>\<open>QJsonDocument::object()\<close>: the object, or an empty object for any other document.\<close>

fun object :: "QJsonDocument \<Rightarrow> QJsonObject" where
  "object (DocObject obj) = obj"
| "object (DocArray arr) = []"
| "object DocNull = []"

text \<open>\<^verbatim>\<open>QJsonObject::isEmpty()\<close> and \<^verbatim>\<open>QJsonObject::operator[]\<close> on a non-const object:
  a key that is absent reads as a null value.\<close>

definition isEmpty :: "QJsonObject \<Rightarrow> bool" where
  "isEmpty obj = (obj = [])"

definition at_key :: "QJsonObject \<Rightarrow> string \<Rightarrow> QJsonValue" where
  "at_key obj k = (case map_of obj k of None \<Rightarrow> JNull | Some v \<Rightarrow> v)"

text \<open>The conversions of \<^verbatim>\<open>QJsonValue\<close>: each returns its default when the value is of
  another kind.\<close>

fun toString :: "QJsonValue \<Rightarrow> string" where
  "toString (JString s) = s"
| "toString JNull = []"
| "toString (JBool b) = []"
| "toString (JDouble d) = []"
| "toString (JArray xs) = []"
| "toString (JObject kvs) = []"
| "toString JUndefined = []"

fun isString :: "QJsonValue \<Rightarrow> bool" where
  "isString (JString s) = True"
| "isString JNull = False"
| "isString (JBool b) = False"
| "isString (JDouble d) = False"
| "isString (JArray xs) = False"
| "isString (JObject kvs) = False"
| "isString JUndefined = False"

fun toArray :: "QJsonValue \<Rightarrow> QJsonArray" where
  "toArray (JArray xs) = xs"
| "toArray JNull = []"
| "toArray (JBool b) = []"
| "toArray (JDouble d) = []"
| "toArray (JString s) = []"
| "toArray (JObject kvs) = []"
| "toArray JUndefined = []"

fun toObject :: "QJsonValue \<Rightarrow> QJsonObject" where
  "toObject (JObject kvs) = kvs"
| "toObject JNull = []"
| "toObject (JBool b) = []"
| "toObject (JDouble d) = []"
| "toObject (JString s) = []"
| "toObject (JArray xs) = []"
| "toObject JUndefined = []"

text \<open>
  \<^verbatim>\<open>QJsonValue::toInt()\<close>: the number when it is whole and fits a 32-bit \<^verbatim>\<open>int\<close>,
  otherwise the default value 0.
\<close>

definition fits_int :: "rat \<Rightarrow> bool" where
  "fits_int d = (of_int \<lfloor>d\<rfloor> = d \<and> - (2 ^ 31) \<le> \<lfloor>d\<rfloor> \<and> \<lfloor>d\<rfloor> \<le> 2 ^ 31 - 1)"

fun toInt :: "QJsonValue \<Rightarrow> int" where
  "toInt (JDouble d) = (if fits_int d then \<lfloor>d\<rfloor> else 0)"
| "toInt JNull = 0"
| "toInt (JBool b) = 0"
| "toInt (JString s) = 0"
| "toInt (JArray xs) = 0"
| "toInt (JObject kvs) = 0"
| "toInt JUndefined = 0"

text \<open>
  \<^verbatim>\<open>QJsonValue::toVariant()\<close> and \<^verbatim>\<open>QVariant::toULongLong(&ok)\<close>. A bool converts to
  0 or 1, a string is converted by \<^verbatim>\<open>QString::toULongLong\<close>, a double is rounded to a
  64-bit integer by \<^verbatim>\<open>qRound64\<close> and cast; every other variant cannot be converted.
  A conversion that fails returns 0 and clears the flag.

  Two parts belong to Qt and are parameters. One is the grammar of
  \<^verbatim>\<open>QString::toULongLong\<close> (\<open>None\<close> when Qt rejects the text). The other is
  \<^verbatim>\<open>qRound64\<close> where its result depends on double arithmetic and on the version of Qt:
  for a whole number of magnitude below \<open>2\<^sup>5\<^sup>2\<close> every step of \<^verbatim>\<open>qRound64\<close> is
  exact and gives the number itself, and only there the model fixes the result.
\<close>

datatype QVariant =
    VInvalid
  | VNullptr
  | VBool bool
  | VDouble rat
  | VString string
  | VList "QVariant list"
  | VMap "(string \<times> QVariant) list"

primrec toVariant :: "QJsonValue \<Rightarrow> QVariant" where
  "toVariant JNull = VNullptr"
| "toVariant (JBool b) = VBool b"
| "toVariant (JDouble d) = VDouble d"
| "toVariant (JString s) = VString s"
| "toVariant (JArray xs) = VList (map toVariant xs)"
| "toVariant (JObject kvs) = VMap (map (map_prod id toVariant) kvs)"
| "toVariant JUndefined = VInvalid"

type_synonym ut64 = "64 word"

record QtNumbers =
  QString_toULongLong :: "string \<Rightarrow> ut64 option"
  qRound64 :: "rat \<Rightarrow> int"

definition exactly_rounded :: "rat \<Rightarrow> bool" where
  "exactly_rounded d = (of_int \<lfloor>d\<rfloor> = d \<and> \<bar>d\<bar> < 2 ^ 52)"

fun toULongLong :: "QtNumbers \<Rightarrow> QVariant \<Rightarrow> ut64 \<times> bool" where
  "toULongLong qt (VString s) =
     (case QString_toULongLong qt s of None \<Rightarrow> (0, False) | Some v \<Rightarrow> (v, True))"
| "toULongLong qt (VBool b) = (if b then 1 else 0, True)"
| "toULongLong qt (VDouble d) =
     (word_of_int (if exactly_rounded d then \<lfloor>d\<rfloor> else qRound64 qt d), True)"
| "toULongLong qt VInvalid = (0, False)"
| "toULongLong qt VNullptr = (0, False)"
| "toULongLong qt (VList xs) = (0, False)"
| "toULongLong qt (VMap kvs) = (0, False)"

section \<open>The decompiled code: \<^verbatim>\<open>RCodeMeta\<close>\<close>

datatype RCodeMetaType =
    R_CODEMETA_TYPE_OFFSET
  | R_CODEMETA_TYPE_SYNTAX_HIGHLIGHT
  | R_CODEMETA_TYPE_FUNCTION_NAME
  | R_CODEMETA_TYPE_GLOBAL_VARIABLE
  | R_CODEMETA_TYPE_CONSTANT_VARIABLE
  | R_CODEMETA_TYPE_LOCAL_VARIABLE
  | R_CODEMETA_TYPE_FUNCTION_PARAMETER

text \<open>
  An annotation item covers the characters \<open>[mi_start, mi_end)\<close> of the text; both are
  \<^verbatim>\<open>size_t\<close>, 64 bits wide here. The offset of an offset-kind item is a \<^verbatim>\<open>ut64\<close>.
\<close>

record RCodeMetaItem =
  mi_start :: "64 word"
  mi_end :: "64 word"
  mi_type :: RCodeMetaType
  mi_offset :: ut64

record RCodeMeta =
  cm_code :: string
  cm_annotations :: "RCodeMetaItem list"

text \<open>\<^verbatim>\<open>std::string::c_str()\<close> followed by \<^verbatim>\<open>strdup\<close>: the text up to its first NUL.\<close>

definition strdup :: "string \<Rightarrow> string" where
  "strdup s = takeWhile (\<lambda>c. c \<noteq> CHR 0x00) s"

text \<open>\<^verbatim>\<open>r_codemeta_new(code)\<close>: a fresh object with a copy of the text (an empty text for
  a null pointer) and no annotation.\<close>

definition r_codemeta_new :: "string option \<Rightarrow> RCodeMeta" where
  "r_codemeta_new c =
     \<lparr>cm_code = (case c of None \<Rightarrow> [] | Some s \<Rightarrow> strdup s), cm_annotations = []\<rparr>"

text \<open>\<^verbatim>\<open>r_codemeta_item_new()\<close>: a zeroed item.\<close>

definition r_codemeta_item_new :: RCodeMetaItem where
  "r_codemeta_item_new =
     \<lparr>mi_start = 0, mi_end = 0, mi_type = R_CODEMETA_TYPE_OFFSET, mi_offset = 0\<rparr>"

text \<open>\<^verbatim>\<open>r_codemeta_add_annotation(code, mi)\<close>: a copy of the item goes to the end of the
  annotations.\<close>

definition r_codemeta_add_annotation :: "RCodeMeta \<Rightarrow> RCodeMetaItem \<Rightarrow> RCodeMeta" where
  "r_codemeta_add_annotation c mi = c\<lparr>cm_annotations := cm_annotations c @ [mi]\<rparr>"

text \<open>
  \<^verbatim>\<open>Decompiler::makeWarning(message)\<close>, as the comment at the head of the file gives it:
  \<^verbatim>\<open>r_codemeta_new\<close> of the message's bytes. \<^verbatim>\<open>tr\<close> leaves the text as it is when no
  translation is installed.
\<close>

definition makeWarning :: "string \<Rightarrow> RCodeMeta" where
  "makeWarning warningMessage = r_codemeta_new (Some warningMessage)"

definition tr :: "string \<Rightarrow> string" where
  "tr s = s"

section \<open>Translating the completion payload\<close>

text \<open>
  The body of the loop over \<^verbatim>\<open>json["annotations"]\<close>: \<open>None\<close> is a \<^verbatim>\<open>continue\<close>,
  \<open>Some mi\<close> the item handed to \<^verbatim>\<open>r_codemeta_add_annotation\<close>. The flag that
  \<^verbatim>\<open>toULongLong\<close> sets is written to \<^verbatim>\<open>ok\<close> and never read.
\<close>

definition annotation_of_line :: "QtNumbers \<Rightarrow> QJsonValue \<Rightarrow> RCodeMetaItem option" where
  "annotation_of_line qt line =
     (let lineObject = toObject line in
      if isEmpty lineObject then None
      else if toString (at_key lineObject ''type'') \<noteq> ''offset'' then None
      else
        let mi = r_codemeta_item_new;
            mi = mi\<lparr>mi_start := word_of_int (toInt (at_key lineObject ''start''))\<rparr>;
            mi = mi\<lparr>mi_end := word_of_int (toInt (at_key lineObject ''end''))\<rparr>;
            mi = mi\<lparr>mi_type := R_CODEMETA_TYPE_OFFSET\<rparr>;
            (v, ok) = toULongLong qt (toVariant (at_key lineObject ''offset''));
            mi = mi\<lparr>mi_offset := v\<rparr>
        in Some mi)"

fun add_annotations :: "QtNumbers \<Rightarrow> QJsonArray \<Rightarrow> RCodeMeta \<Rightarrow> RCodeMeta" where
  "add_annotations qt [] c = c"
| "add_annotations qt (line # linesArray) c =
     (case annotation_of_line qt line of
        None \<Rightarrow> add_annotations qt linesArray c
      | Some mi \<Rightarrow> add_annotations qt linesArray (r_codemeta_add_annotation c mi))"

text \<open>The loop over \<^verbatim>\<open>json["errors"]\<close>: every string entry is appended with a newline.\<close>

fun append_errors :: "QJsonArray \<Rightarrow> string \<Rightarrow> string" where
  "append_errors [] codeString = codeString"
| "append_errors (line # errs) codeString =
     (if \<not> isString line then append_errors errs codeString
      else append_errors errs (codeString @ toString line @ [CHR 0x0A]))"

text \<open>
  The translation the completion handler runs on a result object that is not empty, up to
  \<^verbatim>\<open>code->code = strdup(tmp.c_str())\<close>.
\<close>

definition translate :: "QtNumbers \<Rightarrow> QJsonObject \<Rightarrow> RCodeMeta" where
  "translate qt json =
     (let code = r_codemeta_new None;
          codeString = toString (at_key json ''code'');
          code = add_annotations qt (toArray (at_key json ''annotations'')) code;
          codeString = append_errors (toArray (at_key json ''errors'')) codeString
      in code\<lparr>cm_code := strdup codeString\<rparr>)"

section \<open>The single-flight decompiler\<close>

text \<open>
  The object's state: the member \<^verbatim>\<open>task\<close> (\<open>None\<close> is \<^verbatim>\<open>nullptr\<close>), the
  \<^verbatim>\<open>R2Task\<close> objects created with \<^verbatim>\<open>new\<close> and not yet deleted (address and
  command), the number of tasks created so far (the next address), and what an observer sees,
  in order: a task created, a task started, a task deleted, the signal \<^verbatim>\<open>finished\<close>
  emitted with its pointer argument.
\<close>

datatype decompiler_event =
    NewTask nat string
  | StartTask nat
  | DeleteTask nat
  | Finished "RCodeMeta option"

record R2pdcCmdDecompiler =
  task :: "nat option"
  live_tasks :: "(nat \<times> string) list"
  created :: nat
  events :: "decompiler_event list"

text \<open>The constructor: \<^verbatim>\<open>task = nullptr\<close>.\<close>

definition new_decompiler :: R2pdcCmdDecompiler where
  "new_decompiler = \<lparr>task = None, live_tasks = [], created = 0, events = []\<rparr>"

text \<open>\<^verbatim>\<open>QString::number(addr)\<close>: the decimal digits of an unsigned 64-bit value.\<close>

fun number :: "nat \<Rightarrow> string" where
  "number n = (if n < 10 then [''0123456789'' ! n]
               else number (n div 10) @ [''0123456789'' ! (n mod 10)])"

declare number.simps [simp del]

definition decompileAt :: "ut64 \<Rightarrow> R2pdcCmdDecompiler \<Rightarrow> R2pdcCmdDecompiler" where
  "decompileAt addr s =
     (if task s \<noteq> None then s
      else
        let t = created s;
            cmd = ''pdcj @ '' @ number (unat addr)
        in s\<lparr>task := Some t,
             live_tasks := live_tasks s @ [(t, cmd)],
             created := Suc t,
             events := events s @ [NewTask t cmd, StartTask t]\<rparr>)"

text \<open>
  \<^verbatim>\<open>emit finished(code)\<close> runs the consumer's slot before it returns. What the slot can do
  to this object is call \<^verbatim>\<open>decompileAt\<close> again: a consumer is the list of addresses it
  asks for, given the result it received.
\<close>

type_synonym consumer = "RCodeMeta option \<Rightarrow> ut64 list"

definition emit_finished ::
  "consumer \<Rightarrow> RCodeMeta option \<Rightarrow> R2pdcCmdDecompiler \<Rightarrow> R2pdcCmdDecompiler" where
  "emit_finished slot code s =
     foldl (\<lambda>s' addr. decompileAt addr s') (s\<lparr>events := events s @ [Finished code]\<rparr>) (slot code)"

text \<open>
  The lambda connected to \<^verbatim>\<open>R2Task::finished\<close>, run with the document the task holds.
  It reads \<^verbatim>\<open>task->getResultJson()\<close> first: with a null \<^verbatim>\<open>task\<close> there is no result
  (\<open>None\<close>).
\<close>

definition delete_task :: "nat \<Rightarrow> R2pdcCmdDecompiler \<Rightarrow> R2pdcCmdDecompiler" where
  "delete_task t s =
     s\<lparr>live_tasks := filter (\<lambda>(a, cmd). a \<noteq> t) (live_tasks s),
       events := events s @ [DeleteTask t]\<rparr>"

definition on_finished ::
  "QtNumbers \<Rightarrow> consumer \<Rightarrow> QJsonDocument \<Rightarrow> R2pdcCmdDecompiler
     \<Rightarrow> R2pdcCmdDecompiler option" where
  "on_finished qt slot doc s =
     (case task s of
        None \<Rightarrow> None
      | Some t \<Rightarrow>
          let json = object doc;
              s = delete_task t s;
              s = s\<lparr>task := None\<rparr>
          in if isEmpty json
             then Some (emit_finished slot
                          (Some (makeWarning (tr ''Failed to parse JSON from pdc''))) s)
             else Some (emit_finished slot (Some (translate qt json)) s))"

text \<open>
  A run of the object: the caller invokes \<^verbatim>\<open>decompileAt\<close>, or the pending task completes
  with a document. Without a pending task no \<^verbatim>\<open>R2Task\<close> exists that could complete, and
  the completion does not occur.
\<close>

datatype input = Invoke ut64 | Completion QJsonDocument

fun run ::
  "QtNumbers \<Rightarrow> consumer \<Rightarrow> input list \<Rightarrow> R2pdcCmdDecompiler
     \<Rightarrow> R2pdcCmdDecompiler" where
  "run qt slot [] s = s"
| "run qt slot (Invoke addr # ins) s = run qt slot ins (decompileAt addr s)"
| "run qt slot (Completion doc # ins) s =
     (case on_finished qt slot doc s of
        None \<Rightarrow> run qt slot ins s
      | Some s' \<Rightarrow> run qt slot ins s')"

text \<open>The arguments of the \<^verbatim>\<open>finished\<close> signals among the events, in order.\<close>

fun finished_signals :: "decompiler_event list \<Rightarrow> RCodeMeta option list" where
  "finished_signals [] = []"
| "finished_signals (Finished code # es) = code # finished_signals es"
| "finished_signals (NewTask t cmd # es) = finished_signals es"
| "finished_signals (StartTask t # es) = finished_signals es"
| "finished_signals (DeleteTask t # es) = finished_signals es"

section \<open>The plugin manager\<close>

subsection \<open>What the manager reads from its surroundings\<close>

text \<open>
  Paths are strings. The answers of \<^verbatim>\<open>QStandardPaths\<close>, the build's macros
  (\<^verbatim>\<open>APPIMAGE\<close>, \<^verbatim>\<open>IAITO_EXTRA_PLUGIN_DIRS\<close>, \<^verbatim>\<open>IAITO_ENABLE_PYTHON_BINDINGS\<close>),
  \<^verbatim>\<open>QDir\<close>'s path arithmetic and directory listings are parameters.
\<close>

record QtEnv =
  writableLocation :: string
  standardLocations :: "string list"
  APPIMAGE :: bool
  applicationDirPath :: string
  IAITO_EXTRA_PLUGIN_DIRS :: string
  listSeparator :: char
  IAITO_ENABLE_PYTHON_BINDINGS :: bool
  absolutePath :: "string \<Rightarrow> string"
  filePath :: "string \<Rightarrow> string \<Rightarrow> string"
  may_create :: "string \<Rightarrow> bool"
  entryList_Files :: "string \<Rightarrow> string list"
  entryList_Dirs_Files :: "string \<Rightarrow> string list"

text \<open>
  \<^verbatim>\<open>QPluginLoader(file).instance()\<close> gives the module's root object or null, with an
  error text; \<^verbatim>\<open>qobject_cast<IaitoPlugin *>\<close> gives the plugin behind a root object or
  null. Objects are named by numbers.
\<close>

record PluginLoader =
  loader_instance :: "string \<Rightarrow> nat option"
  loader_errorString :: "string \<Rightarrow> string"
  qobject_cast :: "nat \<Rightarrow> nat option"

text \<open>
  The calls into the embedded interpreter and the binding's converter. A null result is
  \<open>None\<close>; \<^verbatim>\<open>isPythonToCppPointerConvertible\<close> gives the conversion function or null,
  and the conversion function writes a plugin pointer that may be null.
\<close>

record Python =
  PyImport_ImportModule :: "string \<Rightarrow> nat option"
  PyObject_GetAttrString :: "nat \<Rightarrow> string \<Rightarrow> nat option"
  PyCallable_Check :: "nat \<Rightarrow> bool"
  PyObject_CallFunction :: "nat \<Rightarrow> nat option"
  isPythonToCppPointerConvertible :: "nat \<Rightarrow> (nat \<Rightarrow> nat option) option"

subsection \<open>The manager's state\<close>

text \<open>
  \<^verbatim>\<open>plugins\<close> is a vector of owning pointers with the deleter \<^verbatim>\<open>PluginTerminator\<close>
  (\<open>None\<close> is a null pointer). \<open>calls\<close> records, in order, what is done with plugin
  objects; \<open>messages\<close> what goes to \<^verbatim>\<open>qInfo()\<close> and \<^verbatim>\<open>qWarning()\<close>; \<open>dirs\<close> the
  directories that exist, by absolute path; \<open>deleted\<close> the plugin objects that
  \<^verbatim>\<open>delete\<close> has destroyed. The loaders hand out objects that are alive; the model
  follows one loading and one teardown, as the process does.
\<close>

datatype plugin_call = SetupPlugin nat | PushBack nat | Terminate nat | Delete nat

datatype message =
    PluginsAreLoadedFrom string
  | Loaded int
  | LoadErrorForPlugin string string
  | CouldntLoadModule string
  | NoCreateFunction string
  | CreateFunctionFailed
  | NotAnInstanceOfIaitoPlugin string
  | ErrorDuringSetup string

record PluginManager =
  plugins :: "nat option list"
  calls :: "plugin_call list"
  messages :: "message list"
  dirs :: "string list"
  deleted :: "nat list"

definition new_manager :: "string list \<Rightarrow> PluginManager" where
  "new_manager ds = \<lparr>plugins = [], calls = [], messages = [], dirs = ds, deleted = []\<rparr>"

definition qlog :: "message \<Rightarrow> PluginManager \<Rightarrow> PluginManager" where
  "qlog m s = s\<lparr>messages := messages s @ [m]\<rparr>"

subsection \<open>\<^verbatim>\<open>QDir\<close>\<close>

definition dir_exists :: "QtEnv \<Rightarrow> string \<Rightarrow> PluginManager \<Rightarrow> bool" where
  "dir_exists Q d s = (absolutePath Q d \<in> set (dirs s))"

definition dir_mkdir :: "QtEnv \<Rightarrow> string \<Rightarrow> string \<Rightarrow> PluginManager \<Rightarrow> PluginManager" where
  "dir_mkdir Q d name s =
     (let t = absolutePath Q (filePath Q d name)
      in if t \<notin> set (dirs s) \<and> may_create Q t then s\<lparr>dirs := dirs s @ [t]\<rparr> else s)"

text \<open>
  \<^verbatim>\<open>QDir::mkpath\<close> creates the directory with every parent that is missing, from the
  outermost on, and stops at the first it cannot create. The parents of a path are its
  parts before each \<^verbatim>\<open>/\<close>.
\<close>

fun path_and_parents :: "string \<Rightarrow> string \<Rightarrow> string list" where
  "path_and_parents before [] = [before]"
| "path_and_parents before (c # cs) =
     (if c = CHR ''/'' \<and> before \<noteq> [] then before # path_and_parents (before @ [c]) cs
      else path_and_parents (before @ [c]) cs)"

fun mkpath_each :: "QtEnv \<Rightarrow> string list \<Rightarrow> PluginManager \<Rightarrow> PluginManager" where
  "mkpath_each Q [] s = s"
| "mkpath_each Q (t # ts) s =
     (if t \<in> set (dirs s) then mkpath_each Q ts s
      else if may_create Q t then mkpath_each Q ts (s\<lparr>dirs := dirs s @ [t]\<rparr>)
      else s)"

definition dir_mkpath :: "QtEnv \<Rightarrow> string \<Rightarrow> string \<Rightarrow> PluginManager \<Rightarrow> PluginManager" where
  "dir_mkpath Q d name s =
     mkpath_each Q (path_and_parents [] (absolutePath Q (filePath Q d name))) s"

definition dir_cd :: "QtEnv \<Rightarrow> string \<Rightarrow> string \<Rightarrow> PluginManager \<Rightarrow> string option" where
  "dir_cd Q d name s =
     (let t = filePath Q d name
      in if absolutePath Q t \<in> set (dirs s) then Some t else None)"

definition dir_cdUp :: "QtEnv \<Rightarrow> string \<Rightarrow> PluginManager \<Rightarrow> string" where
  "dir_cdUp Q d s = (case dir_cd Q d ''..'' s of None \<Rightarrow> d | Some d' \<Rightarrow> d')"

definition absoluteFilePath :: "QtEnv \<Rightarrow> string \<Rightarrow> string \<Rightarrow> string" where
  "absoluteFilePath Q d fileName = absolutePath Q (filePath Q d fileName)"

text \<open>\<^verbatim>\<open>QString::split(sep, SkipEmptyParts)\<close>.\<close>

fun split_from :: "char \<Rightarrow> string \<Rightarrow> string \<Rightarrow> string list" where
  "split_from sep part [] = (if part = [] then [] else [part])"
| "split_from sep part (c # cs) =
     (if c = sep then (if part = [] then [] else [part]) @ split_from sep [] cs
      else split_from sep (part @ [c]) cs)"

definition split :: "char \<Rightarrow> string \<Rightarrow> string list" where
  "split sep str = split_from sep [] str"

subsection \<open>Native plugins\<close>

definition setupPlugin :: "nat \<Rightarrow> PluginManager \<Rightarrow> PluginManager" where
  "setupPlugin p s = s\<lparr>calls := calls s @ [SetupPlugin p]\<rparr>"

definition push_back :: "nat \<Rightarrow> PluginManager \<Rightarrow> PluginManager" where
  "push_back p s = s\<lparr>plugins := plugins s @ [Some p], calls := calls s @ [PushBack p]\<rparr>"

fun loadNativePlugins_files ::
  "QtEnv \<Rightarrow> PluginLoader \<Rightarrow> string \<Rightarrow> string list \<Rightarrow> PluginManager \<Rightarrow> PluginManager" where
  "loadNativePlugins_files Q L directory [] s = s"
| "loadNativePlugins_files Q L directory (fileName # rest) s =
     (let file = absoluteFilePath Q directory fileName in
      case loader_instance L file of
        None \<Rightarrow>
          let errorString = loader_errorString L file
          in loadNativePlugins_files Q L directory rest
               (if errorString \<noteq> [] then qlog (LoadErrorForPlugin fileName errorString) s else s)
      | Some plugin \<Rightarrow>
          (case qobject_cast L plugin of
             None \<Rightarrow> loadNativePlugins_files Q L directory rest s
           | Some iaitoPlugin \<Rightarrow>
               loadNativePlugins_files Q L directory rest
                 (push_back iaitoPlugin (setupPlugin iaitoPlugin s))))"

definition loadNativePlugins ::
  "QtEnv \<Rightarrow> PluginLoader \<Rightarrow> string \<Rightarrow> PluginManager \<Rightarrow> PluginManager" where
  "loadNativePlugins Q L directory s =
     loadNativePlugins_files Q L directory (entryList_Files Q directory) s"

subsection \<open>Python plugins\<close>

text \<open>\<^verbatim>\<open>loadPythonPlugin\<close> returns the plugin pointer (null on every failure) and leaves
  its warnings.\<close>

definition loadPythonPlugin ::
  "Python \<Rightarrow> string \<Rightarrow> PluginManager \<Rightarrow> nat option \<times> PluginManager" where
  "loadPythonPlugin P moduleName s =
     (case PyImport_ImportModule P moduleName of
        None \<Rightarrow> (None, qlog (CouldntLoadModule moduleName) s)
      | Some pluginModule \<Rightarrow>
          (case PyObject_GetAttrString P pluginModule ''create_iaito_plugin'' of
             None \<Rightarrow> (None, qlog (NoCreateFunction moduleName) s)
           | Some createPluginFunc \<Rightarrow>
               if \<not> PyCallable_Check P createPluginFunc
               then (None, qlog (NoCreateFunction moduleName) s)
               else
                 (case PyObject_CallFunction P createPluginFunc of
                    None \<Rightarrow> (None, qlog CreateFunctionFailed s)
                  | Some pluginObject \<Rightarrow>
                      (case isPythonToCppPointerConvertible P pluginObject of
                         None \<Rightarrow> (None, qlog (NotAnInstanceOfIaitoPlugin moduleName) s)
                       | Some pythonToCpp \<Rightarrow>
                           (case pythonToCpp pluginObject of
                              None \<Rightarrow> (None, qlog (ErrorDuringSetup moduleName) s)
                            | Some plugin \<Rightarrow> (Some plugin, s))))))"

definition endsWith :: "string \<Rightarrow> string \<Rightarrow> bool" where
  "endsWith str suffix =
     (length suffix \<le> length str \<and> drop (length str - length suffix) str = suffix)"

definition chopped :: "string \<Rightarrow> nat \<Rightarrow> string" where
  "chopped str n = take (length str - n) str"

definition moduleName_of :: "string \<Rightarrow> string" where
  "moduleName_of fileName = (if endsWith fileName ''.py'' then chopped fileName 3 else fileName)"

fun loadPythonPlugins_files :: "Python \<Rightarrow> string list \<Rightarrow> PluginManager \<Rightarrow> PluginManager" where
  "loadPythonPlugins_files P [] s = s"
| "loadPythonPlugins_files P (fileName # rest) s =
     (if fileName = ''__pycache__'' then loadPythonPlugins_files P rest s
      else
        case loadPythonPlugin P (moduleName_of fileName) s of
          (None, s') \<Rightarrow> loadPythonPlugins_files P rest s'
        | (Some iaitoPlugin, s') \<Rightarrow>
            loadPythonPlugins_files P rest (push_back iaitoPlugin (setupPlugin iaitoPlugin s')))"

definition loadPythonPlugins ::
  "QtEnv \<Rightarrow> Python \<Rightarrow> string \<Rightarrow> PluginManager \<Rightarrow> PluginManager" where
  "loadPythonPlugins Q P directory s =
     loadPythonPlugins_files P (entryList_Dirs_Files Q directory) s"

subsection \<open>Directories\<close>

definition loadPluginsFromDir ::
  "QtEnv \<Rightarrow> PluginLoader \<Rightarrow> Python \<Rightarrow> string \<Rightarrow> bool \<Rightarrow> PluginManager \<Rightarrow> PluginManager" where
  "loadPluginsFromDir Q L P pluginsDir writable s =
     (let s = qlog (PluginsAreLoadedFrom (absolutePath Q pluginsDir)) s;
          loadedPlugins = int (length (plugins s))
      in if \<not> dir_exists Q pluginsDir s then s
         else
           let s = (if writable then dir_mkdir Q pluginsDir ''native'' s else s);
               s = (case dir_cd Q pluginsDir ''native'' s of
                      None \<Rightarrow> s
                    | Some nativePluginsDir \<Rightarrow> loadNativePlugins Q L nativePluginsDir s);
               s = (if IAITO_ENABLE_PYTHON_BINDINGS Q
                    then
                      let s = (if writable then dir_mkdir Q pluginsDir ''python'' s else s)
                      in (case dir_cd Q pluginsDir ''python'' s of
                            None \<Rightarrow> s
                          | Some pythonPluginsDir \<Rightarrow>
                              loadPythonPlugins Q P (absolutePath Q pythonPluginsDir) s)
                    else s);
               loadedPlugins = int (length (plugins s)) - loadedPlugins
           in qlog (Loaded loadedPlugins) s)"

definition getPluginDirectories :: "QtEnv \<Rightarrow> PluginManager \<Rightarrow> string list" where
  "getPluginDirectories Q s =
     (let result = map (\<lambda>location. filePath Q location ''plugins'') (standardLocations Q);
          result =
            (if APPIMAGE Q
             then
               let plugdir = dir_cdUp Q (applicationDirPath Q) s
               in (case dir_cd Q plugdir ''share/RadareOrg/Iaito/plugins'' s of
                     None \<Rightarrow> result
                   | Some plugdir' \<Rightarrow> result @ [plugdir'])
             else result)
      in result @ split (listSeparator Q) (IAITO_EXTRA_PLUGIN_DIRS Q))"

definition getUserPluginsDirectory :: "QtEnv \<Rightarrow> PluginManager \<Rightarrow> string \<times> PluginManager" where
  "getUserPluginsDirectory Q s =
     (let location = writableLocation Q
      in if location = [] then ([], s)
         else
           let s = dir_mkpath Q location ''plugins'' s
           in (case dir_cd Q location ''plugins'' s of
                 None \<Rightarrow> ([], s)
               | Some pluginsDir \<Rightarrow> (absolutePath Q pluginsDir, s)))"

subsection \<open>Loading and destroying\<close>

text \<open>
  Modelled from the spec: the header that declares \<^verbatim>\<open>loadPluginsFromDir\<close> and the
  vector \<^verbatim>\<open>plugins\<close> is not among the sources. Only the user's root is writable, so
  \<^verbatim>\<open>loadPluginsFromDir(dir)\<close> with one argument passes \<^verbatim>\<open>writable = false\<close>; the
  vector owns its plugins and releases each through \<^verbatim>\<open>PluginTerminator\<close>.
  \<^verbatim>\<open>assert(plugins.empty())\<close> stops a build with assertions when plugins are loaded
  already.
\<close>

datatype failure = AssertionFailed | UseAfterFree

definition loadPlugins_dirs ::
  "QtEnv \<Rightarrow> PluginLoader \<Rightarrow> Python \<Rightarrow> string \<Rightarrow> string list \<Rightarrow> PluginManager \<Rightarrow> PluginManager" where
  "loadPlugins_dirs Q L P userPluginDir pluginDirs s =
     foldl (\<lambda>s' dir. if absolutePath Q dir = userPluginDir then s'
                      else loadPluginsFromDir Q L P dir False s') s pluginDirs"

definition loadPlugins ::
  "QtEnv \<Rightarrow> PluginLoader \<Rightarrow> Python \<Rightarrow> bool \<Rightarrow> PluginManager \<Rightarrow> failure + PluginManager" where
  "loadPlugins Q L P enablePlugins s =
     (if plugins s \<noteq> [] then Inl AssertionFailed
      else if \<not> enablePlugins then Inr s
      else
        let (userPluginDir, s) = getUserPluginsDirectory Q s;
            s = (if userPluginDir \<noteq> [] then loadPluginsFromDir Q L P userPluginDir True s else s);
            pluginDirs = getPluginDirectories Q s
        in Inr (loadPlugins_dirs Q L P userPluginDir pluginDirs s))"

text \<open>
  \<^verbatim>\<open>PluginTerminator\<close> is what an owning pointer runs on the plugin it holds when it is
  destroyed: \<^verbatim>\<open>plugin->terminate()\<close>, then \<^verbatim>\<open>delete plugin\<close>. On an object that was
  deleted before, the call of \<^verbatim>\<open>terminate()\<close> is a use after free. A null pointer runs
  nothing.
\<close>

definition PluginTerminator :: "nat \<Rightarrow> PluginManager \<Rightarrow> failure + PluginManager" where
  "PluginTerminator plugin s =
     (if plugin \<in> set (deleted s) then Inl UseAfterFree
      else Inr (s\<lparr>calls := calls s @ [Terminate plugin, Delete plugin],
                 deleted := deleted s @ [plugin]\<rparr>))"

fun destroy_elements :: "nat option list \<Rightarrow> PluginManager \<Rightarrow> failure + PluginManager" where
  "destroy_elements [] s = Inr s"
| "destroy_elements (None # ptrs) s = destroy_elements ptrs s"
| "destroy_elements (Some plugin # ptrs) s =
     (case PluginTerminator plugin s of
        Inl e \<Rightarrow> Inl e
      | Inr s' \<Rightarrow> destroy_elements ptrs s')"

text \<open>
  \<^verbatim>\<open>plugins.clear()\<close> destroys every element of the vector. In which order is the
  library's choice (libstdc++ goes from the first to the last, libc++ from the last to the
  first): \<open>clear_order\<close> gives the elements in the order of their destruction.
\<close>

definition destroyPlugins ::
  "(nat option list \<Rightarrow> nat option list) \<Rightarrow> PluginManager \<Rightarrow> failure + PluginManager" where
  "destroyPlugins clear_order s =
     (case destroy_elements (clear_order (plugins s)) s of
        Inl e \<Rightarrow> Inl e
      | Inr s' \<Rightarrow> Inr (s'\<lparr>plugins := []\<rparr>))"

section \<open>Observations\<close>

text \<open>The directories announced by \<^verbatim>\<open>qInfo() << "Plugins are loaded from"\<close>, in order:
  one for each call of \<^verbatim>\<open>loadPluginsFromDir\<close>.\<close>

fun scanned :: "message list \<Rightarrow> string list" where
  "scanned [] = []"
| "scanned (m # ms) = (case m of PluginsAreLoadedFrom d \<Rightarrow> d # scanned ms | _ \<Rightarrow> scanned ms)"

text \<open>What one pass of each loop body pushes for a file name: the plugin, or nothing.\<close>

definition native_plugin :: "QtEnv \<Rightarrow> PluginLoader \<Rightarrow> string \<Rightarrow> string \<Rightarrow> nat option" where
  "native_plugin Q L directory fileName =
     (case loader_instance L (absoluteFilePath Q directory fileName) of
        None \<Rightarrow> None
      | Some plugin \<Rightarrow> qobject_cast L plugin)"

definition python_plugin :: "Python \<Rightarrow> string \<Rightarrow> nat option" where
  "python_plugin P fileName =
     (if fileName = ''__pycache__'' then None
      else fst (loadPythonPlugin P (moduleName_of fileName) (new_manager [])))"

text \<open>The calls that set up and insert the plugins \<open>ps\<close>, one after the other, and the
  states whose plugins are non-null and were all inserted that way.\<close>

definition set_up :: "nat list \<Rightarrow> plugin_call list" where
  "set_up ps = concat (map (\<lambda>p. [SetupPlugin p, PushBack p]) ps)"

definition well_loaded :: "PluginManager \<Rightarrow> bool" where
  "well_loaded s = (\<exists>ps. plugins s = map Some ps \<and> calls s = set_up ps)"

text \<open>A Qt whose \<^verbatim>\<open>QString::toULongLong\<close> rejects every text and whose
  \<^verbatim>\<open>qRound64\<close> rounds halves up, to evaluate the translation on.\<close>

definition example_numbers :: QtNumbers where
  "example_numbers =
     \<lparr>QString_toULongLong = (\<lambda>s. None), qRound64 = (\<lambda>d. \<lfloor>d + 1 / 2\<rfloor>)\<rparr>"

subsection \<open>An installation to evaluate the manager on\<close>

text \<open>
  The user's data directory is \<^verbatim>\<open>/home/u\<close>; the extra directories name \<^verbatim>\<open>/opt/p\<close>
  twice. \<^verbatim>\<open>/opt/p/native\<close> holds a plugin (\<^verbatim>\<open>a.so\<close>), a file that does not load
  (\<^verbatim>\<open>b.txt\<close>) and a module whose root object is no \<^verbatim>\<open>IaitoPlugin\<close> (\<^verbatim>\<open>c.so\<close>);
  \<^verbatim>\<open>/opt/p/python\<close> holds a plugin (\<^verbatim>\<open>good.py\<close>), a module whose factory returns
  something else (\<^verbatim>\<open>bad.py\<close>) and one whose conversion gives a null pointer
  (\<^verbatim>\<open>null.py\<close>).
\<close>

definition example_Qt :: QtEnv where
  "example_Qt =
     \<lparr>writableLocation = ''/home/u'',
      standardLocations = [''/home/u'', ''/usr''],
      APPIMAGE = False,
      applicationDirPath = ''/usr/bin'',
      IAITO_EXTRA_PLUGIN_DIRS = ''/opt/p:/opt/p'',
      listSeparator = CHR '':'',
      IAITO_ENABLE_PYTHON_BINDINGS = True,
      absolutePath = (\<lambda>d. d),
      filePath = (\<lambda>d name. d @ ''/'' @ name),
      may_create = (\<lambda>d. True),
      entryList_Files = (\<lambda>d. if d = ''/opt/p/native'' then [''a.so'', ''b.txt'', ''c.so''] else []),
      entryList_Dirs_Files =
        (\<lambda>d. if d = ''/opt/p/python'' then [''__pycache__'', ''good.py'', ''bad.py'', ''null.py'']
             else [])\<rparr>"

definition example_loader :: PluginLoader where
  "example_loader =
     \<lparr>loader_instance = (\<lambda>file. if file = ''/opt/p/native/a.so'' then Some 1
                               else if file = ''/opt/p/native/c.so'' then Some 3 else None),
      loader_errorString = (\<lambda>file. ''not a plugin''),
      qobject_cast = (\<lambda>obj. if obj = 1 then Some 10 else None)\<rparr>"

definition example_python :: Python where
  "example_python =
     \<lparr>PyImport_ImportModule = (\<lambda>m. if m = ''good'' then Some 20 else if m = ''bad'' then Some 21
                                   else if m = ''null'' then Some 22 else None),
      PyObject_GetAttrString = (\<lambda>m a. if a = ''create_iaito_plugin'' then Some (m + 10) else None),
      PyCallable_Check = (\<lambda>f. True),
      PyObject_CallFunction = (\<lambda>f. Some (f + 10)),
      isPythonToCppPointerConvertible =
        (\<lambda>obj. if obj = 40 then Some (\<lambda>obj. Some 11)
               else if obj = 42 then Some (\<lambda>obj. None) else None)\<rparr>"

definition example_dirs :: "string list" where
  "example_dirs = [''/home'', ''/home/u'', ''/opt'', ''/opt/p'', ''/opt/p/native'', ''/opt/p/python'']"


section \<open>Properties of the decompiler\<close>

subsection \<open>Single flight\<close>

lemma finished_signals_append:
  "finished_signals (xs @ ys) = finished_signals xs @ finished_signals ys"
  by (induction xs rule: finished_signals.induct) simp_all

lemma decompileAt_pending: "task s = Some t \<Longrightarrow> decompileAt addr s = s"
  by (simp add: decompileAt_def)

lemma decompileAt_idle:
  "task s = None \<Longrightarrow>
   decompileAt addr s =
     s\<lparr>task := Some (created s),
       live_tasks := live_tasks s @ [(created s, ''pdcj @ '' @ number (unat addr))],
       created := Suc (created s),
       events := events s @ [NewTask (created s) (''pdcj @ '' @ number (unat addr)),
                             StartTask (created s)]\<rparr>"
  by (simp add: decompileAt_def Let_def)

lemma foldl_decompileAt_pending:
  "task s = Some t \<Longrightarrow> foldl (\<lambda>s' addr. decompileAt addr s') s addrs = s"
  by (induction addrs) (simp_all add: decompileAt_pending)

lemma foldl_decompileAt_idle:
  "task s = None \<Longrightarrow>
   foldl (\<lambda>s' addr. decompileAt addr s') s addrs =
     (case addrs of [] \<Rightarrow> s | addr # rest \<Rightarrow> decompileAt addr s)"
  by (cases addrs) (simp_all add: decompileAt_idle foldl_decompileAt_pending)

text \<open>The invariant: the live tasks are exactly the one the member \<^verbatim>\<open>task\<close> points to.\<close>

lemma decompileAt_single:
  "map fst (live_tasks s) = (case task s of None \<Rightarrow> [] | Some t \<Rightarrow> [t]) \<Longrightarrow>
   map fst (live_tasks (decompileAt addr s)) =
     (case task (decompileAt addr s) of None \<Rightarrow> [] | Some t \<Rightarrow> [t])"
  by (simp add: decompileAt_def Let_def split: option.splits)

lemma foldl_decompileAt_single:
  "map fst (live_tasks s) = (case task s of None \<Rightarrow> [] | Some t \<Rightarrow> [t]) \<Longrightarrow>
   map fst (live_tasks (foldl (\<lambda>s' addr. decompileAt addr s') s addrs)) =
     (case task (foldl (\<lambda>s' addr. decompileAt addr s') s addrs) of None \<Rightarrow> [] | Some t \<Rightarrow> [t])"
proof (induction addrs arbitrary: s)
  case Nil
  then show ?case by simp
next
  case (Cons a addrs)
  from Cons.prems have "map fst (live_tasks (decompileAt a s)) =
     (case task (decompileAt a s) of None \<Rightarrow> [] | Some t \<Rightarrow> [t])"
    by (rule decompileAt_single)
  from Cons.IH [OF this] show ?case by simp
qed

lemma on_finished_single:
  assumes "map fst (live_tasks s) = (case task s of None \<Rightarrow> [] | Some t \<Rightarrow> [t])"
    and "on_finished qt slot doc s = Some s'"
  shows "map fst (live_tasks s') = (case task s' of None \<Rightarrow> [] | Some t \<Rightarrow> [t])"
proof -
  from assms(2) obtain t where t: "task s = Some t"
    by (auto simp: on_finished_def split: option.splits)
  define idle where "idle = (delete_task t s)\<lparr>task := None\<rparr>"
  have idle: "map fst (live_tasks idle) = (case task idle of None \<Rightarrow> [] | Some t \<Rightarrow> [t])"
    using assms(1) t by (cases "live_tasks s") (auto simp: idle_def delete_task_def)
  obtain code where s': "s' = emit_finished slot code idle"
    using assms(2) t by (auto simp: on_finished_def Let_def idle_def split: if_splits)
  have "map fst (live_tasks (idle\<lparr>events := events idle @ [Finished code]\<rparr>)) =
        (case task (idle\<lparr>events := events idle @ [Finished code]\<rparr>) of None \<Rightarrow> [] | Some t \<Rightarrow> [t])"
    using idle by simp
  from foldl_decompileAt_single [OF this] show ?thesis
    by (simp add: s' emit_finished_def)
qed

lemma run_single:
  "map fst (live_tasks s) = (case task s of None \<Rightarrow> [] | Some t \<Rightarrow> [t]) \<Longrightarrow>
   map fst (live_tasks (run qt slot ins s)) =
     (case task (run qt slot ins s) of None \<Rightarrow> [] | Some t \<Rightarrow> [t])"
proof (induction qt slot ins s rule: run.induct)
  case (1 qt slot s)
  then show ?case by simp
next
  case (2 qt slot addr ins s)
  then show ?case by (simp add: decompileAt_single)
next
  case (3 qt slot doc ins s)
  show ?case
  proof (cases "on_finished qt slot doc s")
    case None
    with 3 show ?thesis by simp
  next
    case (Some s')
    with 3 on_finished_single [OF "3.prems" Some] show ?thesis by simp
  qed
qed

lemma run_at_most_one:
  "length (live_tasks (run qt slot ins new_decompiler)) \<le> 1"
proof -
  have "map fst (live_tasks (run qt slot ins new_decompiler)) =
     (case task (run qt slot ins new_decompiler) of None \<Rightarrow> [] | Some t \<Rightarrow> [t])"
    by (rule run_single) (simp add: new_decompiler_def)
  then have "length (map fst (live_tasks (run qt slot ins new_decompiler))) \<le> 1"
    by (simp split: option.splits)
  then show ?thesis by simp
qed

text \<open>
  C1. While a task is pending (\<^verbatim>\<open>task\<close> is not null), \<^verbatim>\<open>decompileAt\<close> returns the state
  it was given: no task is created, nothing is started, no event is added. Whatever the
  caller invokes, whatever completes and whatever the consumer's slot asks for, a decompiler
  that starts from its constructor never has more than one live \<^verbatim>\<open>R2Task\<close>.
\<close>

theorem single_flight:
  "(task s \<noteq> None \<longrightarrow> decompileAt addr s = s) \<and>
   length (live_tasks (run qt slot ins new_decompiler)) \<le> 1"
  using run_at_most_one [of qt slot ins] by (auto simp: decompileAt_def)

theorem single_flight_witness:
  "task (decompileAt 4096 new_decompiler) \<noteq> None \<and>
   decompileAt 8192 (decompileAt 4096 new_decompiler) = decompileAt 4096 new_decompiler \<and>
   events (decompileAt 4096 new_decompiler) = [NewTask 0 ''pdcj @ 4096'', StartTask 0] \<and>
   length (live_tasks (run example_numbers (\<lambda>code. [8192])
      [Invoke 4096, Invoke 8192, Completion DocNull, Invoke 1] new_decompiler)) \<le> 1"
proof -
  have n: "number 4096 = ''4096''"
    by (simp add: number.simps)
  have t: "task (decompileAt 4096 new_decompiler) \<noteq> None"
    by (simp add: decompileAt_def new_decompiler_def Let_def)
  have e: "events (decompileAt 4096 new_decompiler) = [NewTask 0 ''pdcj @ 4096'', StartTask 0]"
    by (simp add: decompileAt_def new_decompiler_def Let_def n)
  note sf = single_flight [of "decompileAt 4096 new_decompiler" 8192 example_numbers "\<lambda>code. [8192]"
      "[Invoke 4096, Invoke 8192, Completion DocNull, Invoke 1]"]
  from sf t have d:
    "decompileAt 8192 (decompileAt 4096 new_decompiler) = decompileAt 4096 new_decompiler"
    by blast
  from sf have l: "length (live_tasks (run example_numbers (\<lambda>code. [8192])
      [Invoke 4096, Invoke 8192, Completion DocNull, Invoke 1] new_decompiler)) \<le> 1"
    by blast
  from t d e l show ?thesis by blast
qed

subsection \<open>Completion\<close>

text \<open>
  C2. Whatever document a completion carries, the handler emits \<^verbatim>\<open>finished\<close> in a
  state where the task has been deleted and \<^verbatim>\<open>task\<close> is null. Its events are: the
  task deleted, then \<^verbatim>\<open>finished\<close> emitted with a non-null result, then, when the
  consumer's slot calls \<^verbatim>\<open>decompileAt\<close>, a new task created and started for the first
  address it asks for: the call from the slot is accepted.
\<close>

theorem task_destroyed_before_finished:
  assumes "task s = Some t"
  shows "\<exists>code idle s'.
     task idle = None \<and> t \<notin> fst ` set (live_tasks idle) \<and>
     events idle = events s @ [DeleteTask t] \<and>
     on_finished qt slot doc s = Some (emit_finished slot (Some code) idle) \<and>
     on_finished qt slot doc s = Some s' \<and>
     events s' = events s @ [DeleteTask t, Finished (Some code)] @
        (case slot (Some code) of
           [] \<Rightarrow> []
         | addr # rest \<Rightarrow>
             [NewTask (created s) (''pdcj @ '' @ number (unat addr)), StartTask (created s)]) \<and>
     task s' = (case slot (Some code) of [] \<Rightarrow> None | addr # rest \<Rightarrow> Some (created s))"
proof -
  define idle where "idle = (delete_task t s)\<lparr>task := None\<rparr>"
  define code where "code = (if isEmpty (object doc)
     then makeWarning (tr ''Failed to parse JSON from pdc'') else translate qt (object doc))"
  have o: "on_finished qt slot doc s = Some (emit_finished slot (Some code) idle)"
    using assms by (simp add: on_finished_def Let_def idle_def code_def)
  have i: "task (idle\<lparr>events := events idle @ [Finished (Some code)]\<rparr>) = None"
    by (simp add: idle_def)
  have l: "t \<notin> fst ` set (live_tasks idle)"
    by (auto simp: idle_def delete_task_def)
  have e: "emit_finished slot (Some code) idle =
      (case slot (Some code) of
         [] \<Rightarrow> idle\<lparr>events := events idle @ [Finished (Some code)]\<rparr>
       | addr # rest \<Rightarrow> decompileAt addr (idle\<lparr>events := events idle @ [Finished (Some code)]\<rparr>))"
    unfolding emit_finished_def by (rule foldl_decompileAt_idle [OF i])
  show ?thesis
  proof (cases "slot (Some code)")
    case Nil
    with o e l show ?thesis
      by (intro exI [of _ code] exI [of _ idle]
            exI [of _ "idle\<lparr>events := events idle @ [Finished (Some code)]\<rparr>"])
         (simp add: idle_def delete_task_def)
  next
    case (Cons addr rest)
    with o e l show ?thesis
      by (intro exI [of _ code] exI [of _ idle]
            exI [of _ "decompileAt addr (idle\<lparr>events := events idle @ [Finished (Some code)]\<rparr>)"])
         (simp add: idle_def delete_task_def decompileAt_def Let_def)
  qed
qed

theorem task_destroyed_before_finished_witness:
  "task (decompileAt 4096 new_decompiler) = Some 0 \<and>
   (\<exists>code idle s'.
      task idle = None \<and> 0 \<notin> fst ` set (live_tasks idle) \<and>
      events idle = [NewTask 0 ''pdcj @ 4096'', StartTask 0, DeleteTask 0] \<and>
      on_finished example_numbers (\<lambda>code. [7]) DocNull (decompileAt 4096 new_decompiler) =
        Some (emit_finished (\<lambda>code. [7]) (Some code) idle) \<and>
      on_finished example_numbers (\<lambda>code. [7]) DocNull (decompileAt 4096 new_decompiler) = Some s' \<and>
      events s' = [NewTask 0 ''pdcj @ 4096'', StartTask 0, DeleteTask 0, Finished (Some code),
                   NewTask 1 ''pdcj @ 7'', StartTask 1] \<and>
      task s' = Some 1)"
proof -
  have n: "number 4096 = ''4096''" "number 7 = ''7''"
    by (simp_all add: number.simps)
  have t: "task (decompileAt 4096 new_decompiler) = Some 0"
    by (simp add: decompileAt_def new_decompiler_def Let_def)
  have e: "events (decompileAt 4096 new_decompiler) = [NewTask 0 ''pdcj @ 4096'', StartTask 0]"
    by (simp add: decompileAt_def new_decompiler_def Let_def n)
  have c: "created (decompileAt 4096 new_decompiler) = 1"
    by (simp add: decompileAt_def new_decompiler_def Let_def)
  from task_destroyed_before_finished [OF t, of example_numbers "\<lambda>code. [7]" DocNull] t
  show ?thesis by (simp add: e c n)
qed

lemma finished_signals_decompileAt:
  "finished_signals (events (decompileAt addr s)) = finished_signals (events s)"
  by (simp add: decompileAt_def Let_def finished_signals_append)

lemma finished_signals_foldl:
  "finished_signals (events (foldl (\<lambda>s' addr. decompileAt addr s') s addrs)) =
   finished_signals (events s)"
  by (induction addrs arbitrary: s) (simp_all add: finished_signals_decompileAt)

lemma finished_signals_emit:
  "finished_signals (events (emit_finished slot code s)) = finished_signals (events s) @ [code]"
  by (simp add: emit_finished_def finished_signals_foldl finished_signals_append)

text \<open>
  C3. When the completion's document is null (the text did not parse), an array, or an
  empty object, the handler returns, and it has emitted \<^verbatim>\<open>finished\<close> exactly once more
  than before: with a non-null result that holds the warning text and no annotation.
\<close>

theorem empty_payload_warning_once:
  assumes "task s = Some t" and "isEmpty (object doc)"
  shows "\<exists>s'. on_finished qt slot doc s = Some s' \<and>
           finished_signals (events s') =
             finished_signals (events s) @
               [Some \<lparr>cm_code = ''Failed to parse JSON from pdc'', cm_annotations = []\<rparr>]"
  using assms
  by (simp add: on_finished_def Let_def finished_signals_emit delete_task_def
        finished_signals_append makeWarning_def tr_def r_codemeta_new_def strdup_def)

theorem empty_payload_warning_once_witness:
  "task (decompileAt 4096 new_decompiler) = Some 0 \<and>
   isEmpty (object DocNull) \<and> isEmpty (object (DocArray [JString ''garbage''])) \<and>
   (\<exists>s'. on_finished example_numbers (\<lambda>code. [7]) DocNull (decompileAt 4096 new_decompiler) = Some s' \<and>
      finished_signals (events s') =
        [Some \<lparr>cm_code = ''Failed to parse JSON from pdc'', cm_annotations = []\<rparr>])"
proof -
  have n: "number 4096 = ''4096''"
    by (simp add: number.simps)
  have t: "task (decompileAt 4096 new_decompiler) = Some 0"
    by (simp add: decompileAt_def new_decompiler_def Let_def)
  have e: "events (decompileAt 4096 new_decompiler) = [NewTask 0 ''pdcj @ 4096'', StartTask 0]"
    by (simp add: decompileAt_def new_decompiler_def Let_def n)
  have d: "isEmpty (object DocNull)" "isEmpty (object (DocArray [JString ''garbage'']))"
    by (simp_all add: isEmpty_def)
  from empty_payload_warning_once [OF t d(1), of example_numbers "\<lambda>code. [7]"] t d
  show ?thesis by (simp add: e)
qed

subsection \<open>Translation\<close>

lemma add_annotations_annotations:
  "cm_annotations (add_annotations qt linesArray c) =
   cm_annotations c @ List.map_filter (annotation_of_line qt) linesArray"
  by (induction linesArray arbitrary: c)
     (simp_all add: r_codemeta_add_annotation_def split: option.splits)



lemma translate_annotations:
  "cm_annotations (translate qt json) =
   List.map_filter (annotation_of_line qt) (toArray (at_key json ''annotations''))"
  by (simp add: translate_def Let_def add_annotations_annotations r_codemeta_new_def)

lemma offset_type_not_empty:
  "toString (at_key lineObject ''type'') = ''offset'' \<Longrightarrow> \<not> isEmpty lineObject"
  by (auto simp: isEmpty_def at_key_def)

lemma annotation_of_offset_line:
  assumes "toString (at_key (toObject line) ''type'') = ''offset''"
  shows "annotation_of_line qt line =
     Some \<lparr>mi_start = word_of_int (toInt (at_key (toObject line) ''start'')),
           mi_end = word_of_int (toInt (at_key (toObject line) ''end'')),
           mi_type = R_CODEMETA_TYPE_OFFSET,
           mi_offset = fst (toULongLong qt (toVariant (at_key (toObject line) ''offset'')))\<rparr>"
  using assms offset_type_not_empty [OF assms]
  by (simp add: annotation_of_line_def Let_def r_codemeta_item_new_def split: prod.splits)

lemma annotation_of_other_line:
  "isEmpty (toObject line) \<or> toString (at_key (toObject line) ''type'') \<noteq> ''offset'' \<Longrightarrow>
   annotation_of_line qt line = None"
  by (auto simp: annotation_of_line_def Let_def)











text \<open>
  C4, as the claim states it, fails: an entry of type \<^verbatim>\<open>offset\<close> with an offset but with
  neither \<^verbatim>\<open>start\<close> nor \<^verbatim>\<open>end\<close> is kept, with 0 in both.
\<close>

theorem annotation_without_range_kept:
  "map_of [(''type'', JString ''offset''), (''offset'', JDouble 4096)] ''start'' = None \<and>
   map_of [(''type'', JString ''offset''), (''offset'', JDouble 4096)] ''end'' = None \<and>
   cm_annotations (translate example_numbers
      [(''code'', JString ''x''),
       (''annotations'', JArray [JObject [(''type'', JString ''offset''), (''offset'', JDouble 4096)]])]) =
     [\<lparr>mi_start = 0, mi_end = 0, mi_type = R_CODEMETA_TYPE_OFFSET, mi_offset = 4096\<rparr>]"
  by (simp add: translate_annotations at_key_def annotation_of_line_def isEmpty_def Let_def
        r_codemeta_item_new_def exactly_rounded_def)

text \<open>
  C4, amended. An entry gives an annotation only if it is a non-empty object whose
  \<^verbatim>\<open>type\<close> is the string \<^verbatim>\<open>offset\<close>; every other entry gives none, entry by entry,
  and the annotations of the result are those of the entries, in order. An entry of type
  \<^verbatim>\<open>offset\<close> whose offset converts is kept whatever its \<^verbatim>\<open>start\<close> and \<^verbatim>\<open>end\<close>
  are: a field that is missing or is not a whole number in the range of \<^verbatim>\<open>int\<close> is
  stored as 0.
\<close>

theorem annotation_kept_by_type:
  "(annotation_of_line qt line \<noteq> None \<longrightarrow>
      \<not> isEmpty (toObject line) \<and> toString (at_key (toObject line) ''type'') = ''offset'') \<and>
   (isEmpty (toObject line) \<or> toString (at_key (toObject line) ''type'') \<noteq> ''offset'' \<longrightarrow>
      annotation_of_line qt line = None) \<and>
   (toString (at_key (toObject line) ''type'') = ''offset'' \<and>
    snd (toULongLong qt (toVariant (at_key (toObject line) ''offset''))) \<longrightarrow>
      annotation_of_line qt line =
        Some \<lparr>mi_start = word_of_int (toInt (at_key (toObject line) ''start'')),
              mi_end = word_of_int (toInt (at_key (toObject line) ''end'')),
              mi_type = R_CODEMETA_TYPE_OFFSET,
              mi_offset = fst (toULongLong qt (toVariant (at_key (toObject line) ''offset'')))\<rparr>) \<and>
   cm_annotations (translate qt json) =
     List.map_filter (annotation_of_line qt) (toArray (at_key json ''annotations''))"
proof (intro conjI impI)
  assume a: "annotation_of_line qt line \<noteq> None"
  show "\<not> isEmpty (toObject line)"
  proof
    assume "isEmpty (toObject line)"
    then have "annotation_of_line qt line = None"
      by (simp add: annotation_of_other_line)
    with a show False by simp
  qed
  show "toString (at_key (toObject line) ''type'') = ''offset''"
  proof (rule ccontr)
    assume "toString (at_key (toObject line) ''type'') \<noteq> ''offset''"
    then have "annotation_of_line qt line = None"
      by (simp add: annotation_of_other_line)
    with a show False by simp
  qed
next
  assume "isEmpty (toObject line) \<or> toString (at_key (toObject line) ''type'') \<noteq> ''offset''"
  then show "annotation_of_line qt line = None" by (rule annotation_of_other_line)
next
  assume "toString (at_key (toObject line) ''type'') = ''offset'' \<and>
    snd (toULongLong qt (toVariant (at_key (toObject line) ''offset'')))"
  then show "annotation_of_line qt line =
        Some \<lparr>mi_start = word_of_int (toInt (at_key (toObject line) ''start'')),
              mi_end = word_of_int (toInt (at_key (toObject line) ''end'')),
              mi_type = R_CODEMETA_TYPE_OFFSET,
              mi_offset = fst (toULongLong qt (toVariant (at_key (toObject line) ''offset'')))\<rparr>"
    by (simp add: annotation_of_offset_line)
next
  show "cm_annotations (translate qt json) =
     List.map_filter (annotation_of_line qt) (toArray (at_key json ''annotations''))"
    by (rule translate_annotations)
qed

theorem annotation_kept_by_type_witness:
  "annotation_of_line example_numbers (JObject [(''type'', JString ''offset''), (''offset'', JDouble 4096)]) =
     Some \<lparr>mi_start = 0, mi_end = 0, mi_type = R_CODEMETA_TYPE_OFFSET, mi_offset = 4096\<rparr> \<and>
   toString (at_key (toObject (JObject [(''type'', JString ''offset''), (''offset'', JDouble 4096)])) ''type'') = ''offset'' \<and>
   snd (toULongLong example_numbers (toVariant (at_key (toObject
      (JObject [(''type'', JString ''offset''), (''offset'', JDouble 4096)])) ''offset''))) \<and>
   toString (at_key (toObject (JObject [(''type'', JString ''syntax_highlight''), (''start'', JDouble 0),
      (''end'', JDouble 3)])) ''type'') \<noteq> ''offset'' \<and>
   annotation_of_line example_numbers (JObject [(''type'', JString ''syntax_highlight''), (''start'', JDouble 0),
      (''end'', JDouble 3)]) = None \<and>
   isEmpty (toObject (JString ''offset'')) \<and>
   annotation_of_line example_numbers (JString ''offset'') = None"
proof -
  have k: "toString (at_key (toObject (JObject [(''type'', JString ''offset''), (''offset'', JDouble 4096)])) ''type'') = ''offset''"
    "snd (toULongLong example_numbers (toVariant (at_key (toObject
      (JObject [(''type'', JString ''offset''), (''offset'', JDouble 4096)])) ''offset'')))"
    by (simp_all add: at_key_def)
  have o: "toString (at_key (toObject (JObject [(''type'', JString ''syntax_highlight''), (''start'', JDouble 0),
      (''end'', JDouble 3)])) ''type'') \<noteq> ''offset''"
    by (simp add: at_key_def)
  have e: "isEmpty (toObject (JString ''offset''))"
    by (simp add: isEmpty_def)
  from annotation_kept_by_type [of example_numbers
      "JObject [(''type'', JString ''offset''), (''offset'', JDouble 4096)]" "[]"] k
  have 1: "annotation_of_line example_numbers (JObject [(''type'', JString ''offset''), (''offset'', JDouble 4096)]) =
     Some \<lparr>mi_start = 0, mi_end = 0, mi_type = R_CODEMETA_TYPE_OFFSET, mi_offset = 4096\<rparr>"
    by (simp add: at_key_def exactly_rounded_def)
  from annotation_kept_by_type [of example_numbers
      "JObject [(''type'', JString ''syntax_highlight''), (''start'', JDouble 0), (''end'', JDouble 3)]" "[]"] o
  have 2: "annotation_of_line example_numbers (JObject [(''type'', JString ''syntax_highlight''), (''start'', JDouble 0),
      (''end'', JDouble 3)]) = None"
    by blast
  from annotation_kept_by_type [of example_numbers "JString ''offset''" "[]"] e
  have 3: "annotation_of_line example_numbers (JString ''offset'') = None"
    by blast
  from k o e 1 2 3 show ?thesis by blast
qed



section \<open>Properties of the plugin manager\<close>

subsection \<open>What the loops do to the state\<close>

lemma set_up_append: "set_up (xs @ ys) = set_up xs @ set_up ys"
  by (simp add: set_up_def)

lemma scanned_append: "scanned (xs @ ys) = scanned xs @ scanned ys"
  by (induction xs) (simp_all split: message.splits)

lemma native_files_plugins:
  "plugins (loadNativePlugins_files Q L d files s) =
     plugins s @ map Some (List.map_filter (native_plugin Q L d) files) \<and>
   calls (loadNativePlugins_files Q L d files s) =
     calls s @ set_up (List.map_filter (native_plugin Q L d) files) \<and>
   dirs (loadNativePlugins_files Q L d files s) = dirs s \<and>
   scanned (messages (loadNativePlugins_files Q L d files s)) = scanned (messages s)"
proof (induction files arbitrary: s)
  case Nil
  show ?case by (simp add: set_up_def)
next
  case (Cons f files)
  show ?case
  proof (cases "loader_instance L (absoluteFilePath Q d f)")
    case None
    then show ?thesis
      by (simp add: Cons.IH native_plugin_def Let_def qlog_def scanned_append)
  next
    case (Some q)
    then show ?thesis
      by (cases "qobject_cast L q")
         (simp_all add: Cons.IH native_plugin_def Let_def push_back_def setupPlugin_def set_up_def)
  qed
qed

lemma loadPythonPlugin_state:
  "plugins (snd (loadPythonPlugin P m s)) = plugins s \<and>
   calls (snd (loadPythonPlugin P m s)) = calls s \<and>
   dirs (snd (loadPythonPlugin P m s)) = dirs s \<and>
   scanned (messages (snd (loadPythonPlugin P m s))) = scanned (messages s)"
  by (simp add: loadPythonPlugin_def qlog_def scanned_append split: option.splits)

lemma loadPythonPlugin_fst:
  "fst (loadPythonPlugin P m s) = fst (loadPythonPlugin P m s')"
  by (simp add: loadPythonPlugin_def split: option.splits)

lemma python_files_plugins:
  "plugins (loadPythonPlugins_files P files s) =
     plugins s @ map Some (List.map_filter (python_plugin P) files) \<and>
   calls (loadPythonPlugins_files P files s) =
     calls s @ set_up (List.map_filter (python_plugin P) files) \<and>
   dirs (loadPythonPlugins_files P files s) = dirs s \<and>
   scanned (messages (loadPythonPlugins_files P files s)) = scanned (messages s)"
proof (induction files arbitrary: s)
  case Nil
  show ?case by (simp add: set_up_def)
next
  case (Cons f files)
  show ?case
  proof (cases "f = ''__pycache__''")
    case True
    then show ?thesis by (simp add: Cons.IH python_plugin_def)
  next
    case False
    obtain r s' where l: "loadPythonPlugin P (moduleName_of f) s = (r, s')"
      by (cases "loadPythonPlugin P (moduleName_of f) s")
    have r: "python_plugin P f = r"
      using False l loadPythonPlugin_fst [of P "moduleName_of f" "new_manager []" s]
      by (simp add: python_plugin_def)
    have s': "plugins s' = plugins s" "calls s' = calls s" "dirs s' = dirs s"
      "scanned (messages s') = scanned (messages s)"
      using loadPythonPlugin_state [of P "moduleName_of f" s] l by simp_all
    show ?thesis
      using False l r s'
      by (cases r) (simp_all add: Cons.IH push_back_def setupPlugin_def set_up_def)
  qed
qed

lemma loadPythonPlugin_deleted: "deleted (snd (loadPythonPlugin P m s)) = deleted s"
  by (simp add: loadPythonPlugin_def qlog_def split: option.splits)

lemma python_files_deleted: "deleted (loadPythonPlugins_files P files s) = deleted s"
proof (induction files arbitrary: s)
  case Nil
  show ?case by simp
next
  case (Cons f files)
  show ?case
  proof (cases "f = ''__pycache__''")
    case True
    then show ?thesis by (simp add: Cons.IH)
  next
    case False
    obtain r s' where l: "loadPythonPlugin P (moduleName_of f) s = (r, s')"
      by (cases "loadPythonPlugin P (moduleName_of f) s")
    have "deleted s' = deleted s"
      using loadPythonPlugin_deleted [of P "moduleName_of f" s] l by simp
    then show ?thesis
      using False l by (cases r) (simp_all add: Cons.IH push_back_def setupPlugin_def)
  qed
qed

lemma mkpath_each_state:
  "plugins (mkpath_each Q ts s) = plugins s \<and> calls (mkpath_each Q ts s) = calls s \<and>
   messages (mkpath_each Q ts s) = messages s"
  by (induction ts arbitrary: s) simp_all

lemma dir_mkdir_state:
  "plugins (dir_mkdir Q d n s) = plugins s \<and> calls (dir_mkdir Q d n s) = calls s \<and>
   messages (dir_mkdir Q d n s) = messages s"
  by (simp add: dir_mkdir_def Let_def)

lemma qlog_state:
  "plugins (qlog m s) = plugins s \<and> calls (qlog m s) = calls s \<and> dirs (qlog m s) = dirs s \<and>
   messages (qlog m s) = messages s @ [m]"
  by (simp add: qlog_def)

lemma loadNativePlugins_scanned:
  "scanned (messages (loadNativePlugins Q L d s)) = scanned (messages s)"
  by (simp add: loadNativePlugins_def native_files_plugins)

lemma loadPythonPlugins_scanned:
  "scanned (messages (loadPythonPlugins Q P d s)) = scanned (messages s)"
  by (simp add: loadPythonPlugins_def python_files_plugins)

lemma loadPluginsFromDir_scanned:
  "scanned (messages (loadPluginsFromDir Q L P d w s)) = scanned (messages s) @ [absolutePath Q d]"
  by (simp add: loadPluginsFromDir_def Let_def qlog_state scanned_append dir_mkdir_state
        loadNativePlugins_scanned loadPythonPlugins_scanned split: option.splits)

lemma well_loaded_same:
  "well_loaded s \<Longrightarrow> plugins s' = plugins s \<Longrightarrow> calls s' = calls s \<Longrightarrow> well_loaded s'"
  by (simp add: well_loaded_def)

lemma well_loaded_more:
  assumes "well_loaded s" and "plugins s' = plugins s @ map Some found"
    and "calls s' = calls s @ set_up found"
  shows "well_loaded s'"
proof -
  from assms(1) obtain ps where "plugins s = map Some ps" and "calls s = set_up ps"
    by (auto simp: well_loaded_def)
  with assms(2,3) have "plugins s' = map Some (ps @ found) \<and> calls s' = set_up (ps @ found)"
    by (simp add: set_up_append)
  then show ?thesis unfolding well_loaded_def by blast
qed

lemma loadNativePlugins_well_loaded:
  "well_loaded s \<Longrightarrow> well_loaded (loadNativePlugins Q L d s)"
  by (rule well_loaded_more [where found = "List.map_filter (native_plugin Q L d) (entryList_Files Q d)"])
     (simp_all add: loadNativePlugins_def native_files_plugins)

lemma loadPythonPlugins_well_loaded:
  "well_loaded s \<Longrightarrow> well_loaded (loadPythonPlugins Q P d s)"
  by (rule well_loaded_more [where found = "List.map_filter (python_plugin P) (entryList_Dirs_Files Q d)"])
     (simp_all add: loadPythonPlugins_def python_files_plugins)

lemma dir_mkdir_well_loaded: "well_loaded s \<Longrightarrow> well_loaded (dir_mkdir Q d n s)"
  by (rule well_loaded_same) (simp_all add: dir_mkdir_state)

lemma qlog_well_loaded: "well_loaded s \<Longrightarrow> well_loaded (qlog m s)"
  by (rule well_loaded_same) (simp_all add: qlog_state)

lemma loadPluginsFromDir_well_loaded:
  "well_loaded s \<Longrightarrow> well_loaded (loadPluginsFromDir Q L P d w s)"
  by (simp add: loadPluginsFromDir_def Let_def qlog_well_loaded dir_mkdir_well_loaded
        loadNativePlugins_well_loaded loadPythonPlugins_well_loaded split: option.splits)

lemma loadPlugins_dirs_well_loaded:
  "well_loaded s \<Longrightarrow> well_loaded (loadPlugins_dirs Q L P user ds s)"
  unfolding loadPlugins_dirs_def
  by (induction ds arbitrary: s) (simp_all add: loadPluginsFromDir_well_loaded)

lemma loadPlugins_dirs_scanned:
  "scanned (messages (loadPlugins_dirs Q L P user ds s)) =
   scanned (messages s) @ map (absolutePath Q) (filter (\<lambda>d. absolutePath Q d \<noteq> user) ds)"
  unfolding loadPlugins_dirs_def
  by (induction ds arbitrary: s) (simp_all add: loadPluginsFromDir_scanned)

lemma getUserPluginsDirectory_state:
  "plugins (snd (getUserPluginsDirectory Q s)) = plugins s \<and>
   calls (snd (getUserPluginsDirectory Q s)) = calls s \<and>
   messages (snd (getUserPluginsDirectory Q s)) = messages s"
  by (simp add: getUserPluginsDirectory_def Let_def dir_mkpath_def mkpath_each_state
        split: option.splits)

lemma new_manager_well_loaded: "well_loaded (new_manager ds)"
  by (simp add: well_loaded_def new_manager_def set_up_def)

lemma loadPlugins_well_loaded:
  assumes "loadPlugins Q L P enablePlugins (new_manager ds) = Inr s"
  shows "well_loaded s"
proof (cases enablePlugins)
  case False
  with assms have "s = new_manager ds"
    by (simp add: loadPlugins_def new_manager_def)
  then show ?thesis by (simp add: new_manager_well_loaded)
next
  case True
  obtain user s1 where u: "getUserPluginsDirectory Q (new_manager ds) = (user, s1)"
    by (cases "getUserPluginsDirectory Q (new_manager ds)")
  have "well_loaded s1"
    using getUserPluginsDirectory_state [of Q "new_manager ds"] u
    by (intro well_loaded_same [OF new_manager_well_loaded]) simp_all
  then have w: "well_loaded (if user \<noteq> [] then loadPluginsFromDir Q L P user True s1 else s1)"
    by (simp add: loadPluginsFromDir_well_loaded)
  from assms True u have "s = loadPlugins_dirs Q L P user
      (getPluginDirectories Q (if user \<noteq> [] then loadPluginsFromDir Q L P user True s1 else s1))
      (if user \<noteq> [] then loadPluginsFromDir Q L P user True s1 else s1)"
    by (simp add: loadPlugins_def new_manager_def Let_def)
  with w show ?thesis by (simp only: loadPlugins_dirs_well_loaded)
qed

subsection \<open>The example installation, evaluated\<close>

lemma example_split: "split CHR '':'' ''/opt/p:/opt/p'' = [''/opt/p'', ''/opt/p'']"
  by (simp add: split_def)

lemma example_user:
  "getUserPluginsDirectory example_Qt (new_manager example_dirs) =
     (''/home/u/plugins'',
      \<lparr>plugins = [], calls = [], messages = [],
       dirs = [''/home'', ''/home/u'', ''/opt'', ''/opt/p'', ''/opt/p/native'', ''/opt/p/python'', ''/home/u/plugins''], deleted = []\<rparr>)"
  by (simp add: getUserPluginsDirectory_def example_Qt_def new_manager_def example_dirs_def
        dir_mkpath_def dir_cd_def Let_def)

lemma example_user_dir:
  "loadPluginsFromDir example_Qt example_loader example_python ''/home/u/plugins'' True
     \<lparr>plugins = [], calls = [], messages = [],
      dirs = [''/home'', ''/home/u'', ''/opt'', ''/opt/p'', ''/opt/p/native'', ''/opt/p/python'', ''/home/u/plugins''], deleted = []\<rparr> =
     \<lparr>plugins = [], calls = [],
      messages = [PluginsAreLoadedFrom ''/home/u/plugins'', Loaded 0],
      dirs = [''/home'', ''/home/u'', ''/opt'', ''/opt/p'', ''/opt/p/native'', ''/opt/p/python'', ''/home/u/plugins'',
              ''/home/u/plugins/native'', ''/home/u/plugins/python''], deleted = []\<rparr>"
  by (simp add: loadPluginsFromDir_def example_Qt_def dir_exists_def dir_mkdir_def dir_cd_def
        Let_def qlog_def loadNativePlugins_def loadPythonPlugins_def)

lemma example_native:
  "loadNativePlugins_files example_Qt example_loader ''/opt/p/native'' [''a.so'', ''b.txt'', ''c.so''] s =
     s\<lparr>plugins := plugins s @ [Some 10],
       calls := calls s @ [SetupPlugin 10, PushBack 10],
       messages := messages s @ [LoadErrorForPlugin ''b.txt'' ''not a plugin'']\<rparr>"
  by (simp add: example_Qt_def example_loader_def absoluteFilePath_def Let_def qlog_def
        push_back_def setupPlugin_def)

lemma example_python_good:
  "loadPythonPlugin example_python ''good'' s = (Some 11, s)"
  by (simp add: loadPythonPlugin_def example_python_def)

lemma example_python_bad:
  "loadPythonPlugin example_python ''bad'' s = (None, qlog (NotAnInstanceOfIaitoPlugin ''bad'') s)"
  by (simp add: loadPythonPlugin_def example_python_def)

lemma example_python_null:
  "loadPythonPlugin example_python ''null'' s = (None, qlog (ErrorDuringSetup ''null'') s)"
  by (simp add: loadPythonPlugin_def example_python_def)

lemma example_module_names:
  "moduleName_of ''good.py'' = ''good''" "moduleName_of ''bad.py'' = ''bad''"
  "moduleName_of ''null.py'' = ''null''"
  by (simp_all add: moduleName_of_def endsWith_def chopped_def)

lemma example_python_files:
  "loadPythonPlugins_files example_python [''__pycache__'', ''good.py'', ''bad.py'', ''null.py''] s =
     s\<lparr>plugins := plugins s @ [Some 11],
       calls := calls s @ [SetupPlugin 11, PushBack 11],
       messages := messages s @ [NotAnInstanceOfIaitoPlugin ''bad'', ErrorDuringSetup ''null'']\<rparr>"
  by (simp add: example_module_names example_python_good example_python_bad example_python_null
        qlog_def push_back_def setupPlugin_def)

lemma example_directories:
  "getPluginDirectories example_Qt s = [''/home/u/plugins'', ''/usr/plugins'', ''/opt/p'', ''/opt/p'']"
  by (simp add: getPluginDirectories_def Let_def example_Qt_def example_split)

lemma example_facts:
  "absolutePath example_Qt d = d" "filePath example_Qt d name = d @ ''/'' @ name"
  "IAITO_ENABLE_PYTHON_BINDINGS example_Qt"
  "entryList_Files example_Qt ''/opt/p/native'' = [''a.so'', ''b.txt'', ''c.so'']"
  "entryList_Dirs_Files example_Qt ''/opt/p/python'' = [''__pycache__'', ''good.py'', ''bad.py'', ''null.py'']"
  by (simp_all add: example_Qt_def)

lemma example_usr_dir:
  "dirs s = [''/home'', ''/home/u'', ''/opt'', ''/opt/p'', ''/opt/p/native'', ''/opt/p/python'',
              ''/home/u/plugins'',
              ''/home/u/plugins/native'', ''/home/u/plugins/python''] \<Longrightarrow>
   loadPluginsFromDir example_Qt example_loader example_python ''/usr/plugins'' False s =
     s\<lparr>messages := messages s @ [PluginsAreLoadedFrom ''/usr/plugins'']\<rparr>"
  by (simp add: loadPluginsFromDir_def example_facts dir_exists_def Let_def qlog_def)

lemma example_opt_dir:
  "dirs s = [''/home'', ''/home/u'', ''/opt'', ''/opt/p'', ''/opt/p/native'', ''/opt/p/python'',
              ''/home/u/plugins'',
              ''/home/u/plugins/native'', ''/home/u/plugins/python''] \<Longrightarrow>
   loadPluginsFromDir example_Qt example_loader example_python ''/opt/p'' False s =
     s\<lparr>plugins := plugins s @ [Some 10, Some 11],
       calls := calls s @ [SetupPlugin 10, PushBack 10, SetupPlugin 11, PushBack 11],
       messages := messages s @
         [PluginsAreLoadedFrom ''/opt/p'', LoadErrorForPlugin ''b.txt'' ''not a plugin'',
          NotAnInstanceOfIaitoPlugin ''bad'', ErrorDuringSetup ''null'', Loaded 2]\<rparr>"
  by (simp add: loadPluginsFromDir_def example_facts dir_exists_def dir_cd_def Let_def qlog_def
        loadNativePlugins_def loadPythonPlugins_def example_native example_python_files
      del: loadNativePlugins_files.simps loadPythonPlugins_files.simps)

lemma example_loaded:
  "loadPlugins example_Qt example_loader example_python True (new_manager example_dirs) =
   Inr \<lparr>plugins = [Some 10, Some 11, Some 10, Some 11],
        calls = [SetupPlugin 10, PushBack 10, SetupPlugin 11, PushBack 11,
                 SetupPlugin 10, PushBack 10, SetupPlugin 11, PushBack 11],
        messages =
          [PluginsAreLoadedFrom ''/home/u/plugins'', Loaded 0,
           PluginsAreLoadedFrom ''/usr/plugins'',
           PluginsAreLoadedFrom ''/opt/p'',
           LoadErrorForPlugin ''b.txt'' ''not a plugin'',
           NotAnInstanceOfIaitoPlugin ''bad'', ErrorDuringSetup ''null'',
           Loaded 2, PluginsAreLoadedFrom ''/opt/p'',
           LoadErrorForPlugin ''b.txt'' ''not a plugin'',
           NotAnInstanceOfIaitoPlugin ''bad'', ErrorDuringSetup ''null'',
           Loaded 2],
        dirs =
          [''/home'', ''/home/u'', ''/opt'', ''/opt/p'', ''/opt/p/native'', ''/opt/p/python'',
           ''/home/u/plugins'', ''/home/u/plugins/native'',
           ''/home/u/plugins/python''],
        deleted = []\<rparr>"
proof -
  have p: "plugins (new_manager example_dirs) = []"
    by (simp add: new_manager_def)
  show ?thesis
    unfolding loadPlugins_def p
    by (simp add: example_user example_user_dir example_directories loadPlugins_dirs_def
          example_facts example_usr_dir example_opt_dir)
qed

subsection \<open>Modules without the plugin contract\<close>

lemma native_files_append:
  "loadNativePlugins_files Q L d (xs @ ys) s =
   loadNativePlugins_files Q L d ys (loadNativePlugins_files Q L d xs s)"
  by (induction xs arbitrary: s) (simp_all add: Let_def split: option.splits)

lemma map_filter_append:
  "List.map_filter f (xs @ ys) = List.map_filter f xs @ List.map_filter f ys"
  by (simp add: List.map_filter_def)

lemma python_plugin_not_convertible:
  assumes "fileName \<noteq> ''__pycache__''"
    and "PyImport_ImportModule P (moduleName_of fileName) = Some pluginModule"
    and "PyObject_GetAttrString P pluginModule ''create_iaito_plugin'' = Some createPluginFunc"
    and "PyCallable_Check P createPluginFunc"
    and "PyObject_CallFunction P createPluginFunc = Some pluginObject"
    and "isPythonToCppPointerConvertible P pluginObject = None"
  shows "python_plugin P fileName = None"
  using assms by (simp add: python_plugin_def loadPythonPlugin_def)

lemma python_plugin_null:
  assumes "fileName \<noteq> ''__pycache__''"
    and "PyImport_ImportModule P (moduleName_of fileName) = Some pluginModule"
    and "PyObject_GetAttrString P pluginModule ''create_iaito_plugin'' = Some createPluginFunc"
    and "PyCallable_Check P createPluginFunc"
    and "PyObject_CallFunction P createPluginFunc = Some pluginObject"
    and "isPythonToCppPointerConvertible P pluginObject = Some pythonToCpp"
    and "pythonToCpp pluginObject = None"
  shows "python_plugin P fileName = None"
  using assms by (simp add: python_plugin_def loadPythonPlugin_def)

lemma python_files_skip:
  assumes "python_plugin P f = None"
  shows "plugins (loadPythonPlugins_files P (before @ f # after) s) =
           plugins (loadPythonPlugins_files P (before @ after) s) \<and>
         calls (loadPythonPlugins_files P (before @ f # after) s) =
           calls (loadPythonPlugins_files P (before @ after) s)"
  using assms by (simp add: python_files_plugins map_filter_append)

lemma destroy_elements_cong:
  "calls s = calls s' \<Longrightarrow> deleted s = deleted s' \<Longrightarrow>
   map_sum id (\<lambda>t. (calls t, deleted t)) (destroy_elements ptrs s) =
   map_sum id (\<lambda>t. (calls t, deleted t)) (destroy_elements ptrs s')"
proof (induction ptrs arbitrary: s s')
  case Nil
  then show ?case by simp
next
  case (Cons ptr ptrs)
  show ?case
  proof (cases ptr)
    case None
    with Cons.IH [OF Cons.prems] show ?thesis by simp
  next
    case (Some plugin)
    show ?thesis
    proof (cases "plugin \<in> set (deleted s)")
      case True
      with Some Cons.prems show ?thesis by (simp add: PluginTerminator_def)
    next
      case False
      define s1 where "s1 = s\<lparr>calls := calls s @ [Terminate plugin, Delete plugin],
        deleted := deleted s @ [plugin]\<rparr>"
      define s1' where "s1' = s'\<lparr>calls := calls s' @ [Terminate plugin, Delete plugin],
        deleted := deleted s' @ [plugin]\<rparr>"
      have "calls s1 = calls s1'" and "deleted s1 = deleted s1'"
        using Cons.prems by (simp_all add: s1_def s1'_def)
      from Cons.IH [OF this] have
        "map_sum id (\<lambda>t. (calls t, deleted t)) (destroy_elements ptrs s1) =
         map_sum id (\<lambda>t. (calls t, deleted t)) (destroy_elements ptrs s1')" .
      moreover have "destroy_elements (ptr # ptrs) s = destroy_elements ptrs s1"
        using Some False by (simp add: PluginTerminator_def s1_def)
      moreover have "destroy_elements (ptr # ptrs) s' = destroy_elements ptrs s1'"
        using Some False Cons.prems by (simp add: PluginTerminator_def s1'_def)
      ultimately show ?thesis by (simp only:)
    qed
  qed
qed

lemma destroyPlugins_calls_cong:
  assumes "plugins s = plugins s'" and "calls s = calls s'" and "deleted s = deleted s'"
  shows "map_sum id calls (destroyPlugins clear_order s) =
         map_sum id calls (destroyPlugins clear_order s')"
proof -
  from destroy_elements_cong [OF assms(2,3), of "clear_order (plugins s)"]
  have "map_sum id (\<lambda>t. (calls t, deleted t)) (destroy_elements (clear_order (plugins s)) s) =
        map_sum id (\<lambda>t. (calls t, deleted t)) (destroy_elements (clear_order (plugins s')) s')"
    by (simp add: assms(1))
  then show ?thesis
    by (cases "destroy_elements (clear_order (plugins s)) s";
        cases "destroy_elements (clear_order (plugins s')) s'")
       (simp_all add: destroyPlugins_def)
qed

text \<open>
  C6. A native module whose root object fails \<^verbatim>\<open>qobject_cast<IaitoPlugin *>\<close> leaves the
  scan of its directory exactly as if the file were not there: the files before and after
  it are handled the same, and the manager's state (plugins, calls, messages) is the same.
  A Python module whose factory result is not convertible to \<^verbatim>\<open>IaitoPlugin\<close> leaves the
  plugins and the calls on plugins of the scan as if the module were not there (it leaves a
  warning), and so the outcome of \<^verbatim>\<open>destroyPlugins()\<close> and its calls too: nothing is
  set up, inserted or terminated for it.
\<close>

theorem module_without_contract_skipped:
  "(loader_instance L (absoluteFilePath Q d f) = Some obj \<and> qobject_cast L obj = None \<longrightarrow>
      loadNativePlugins_files Q L d (before @ f # after) s =
        loadNativePlugins_files Q L d (before @ after) s) \<and>
   (g \<noteq> ''__pycache__'' \<and>
    PyImport_ImportModule P (moduleName_of g) = Some pluginModule \<and>
    PyObject_GetAttrString P pluginModule ''create_iaito_plugin'' = Some createPluginFunc \<and>
    PyCallable_Check P createPluginFunc \<and>
    PyObject_CallFunction P createPluginFunc = Some pluginObject \<and>
    isPythonToCppPointerConvertible P pluginObject = None \<longrightarrow>
      plugins (loadPythonPlugins_files P (before @ g # after) s) =
        plugins (loadPythonPlugins_files P (before @ after) s) \<and>
      calls (loadPythonPlugins_files P (before @ g # after) s) =
        calls (loadPythonPlugins_files P (before @ after) s) \<and>
      map_sum id calls (destroyPlugins clear_order (loadPythonPlugins_files P (before @ g # after) s)) =
        map_sum id calls (destroyPlugins clear_order (loadPythonPlugins_files P (before @ after) s)))"
proof (intro conjI impI)
  assume "loader_instance L (absoluteFilePath Q d f) = Some obj \<and> qobject_cast L obj = None"
  then have "loadNativePlugins_files Q L d (f # after) t = loadNativePlugins_files Q L d after t" for t
    by (simp add: Let_def)
  then show "loadNativePlugins_files Q L d (before @ f # after) s =
        loadNativePlugins_files Q L d (before @ after) s"
    by (simp only: native_files_append)
next
  assume a: "g \<noteq> ''__pycache__'' \<and>
    PyImport_ImportModule P (moduleName_of g) = Some pluginModule \<and>
    PyObject_GetAttrString P pluginModule ''create_iaito_plugin'' = Some createPluginFunc \<and>
    PyCallable_Check P createPluginFunc \<and>
    PyObject_CallFunction P createPluginFunc = Some pluginObject \<and>
    isPythonToCppPointerConvertible P pluginObject = None"
  then have n: "python_plugin P g = None"
    using python_plugin_not_convertible [of g P pluginModule createPluginFunc pluginObject]
    by simp
  from python_files_skip [OF n]
  show p: "plugins (loadPythonPlugins_files P (before @ g # after) s) =
        plugins (loadPythonPlugins_files P (before @ after) s)"
    and c: "calls (loadPythonPlugins_files P (before @ g # after) s) =
        calls (loadPythonPlugins_files P (before @ after) s)"
    by simp_all
  show "map_sum id calls (destroyPlugins clear_order (loadPythonPlugins_files P (before @ g # after) s)) =
        map_sum id calls (destroyPlugins clear_order (loadPythonPlugins_files P (before @ after) s))"
    by (rule destroyPlugins_calls_cong [OF p c]) (simp add: python_files_deleted)
qed

theorem module_without_contract_skipped_witness:
  "loader_instance example_loader (absoluteFilePath example_Qt ''/opt/p/native'' ''c.so'') = Some 3 \<and>
   qobject_cast example_loader 3 = None \<and>
   loadNativePlugins_files example_Qt example_loader ''/opt/p/native''
       ([''a.so''] @ ''c.so'' # [''b.txt'']) (new_manager []) =
     loadNativePlugins_files example_Qt example_loader ''/opt/p/native''
       ([''a.so''] @ [''b.txt'']) (new_manager []) \<and>
   ''bad.py'' \<noteq> ''__pycache__'' \<and>
   PyImport_ImportModule example_python (moduleName_of ''bad.py'') = Some 21 \<and>
   PyObject_GetAttrString example_python 21 ''create_iaito_plugin'' = Some 31 \<and>
   PyCallable_Check example_python 31 \<and>
   PyObject_CallFunction example_python 31 = Some 41 \<and>
   isPythonToCppPointerConvertible example_python 41 = None \<and>
   plugins (loadPythonPlugins_files example_python ([''good.py''] @ ''bad.py'' # []) (new_manager [])) =
     plugins (loadPythonPlugins_files example_python ([''good.py''] @ []) (new_manager [])) \<and>
   calls (loadPythonPlugins_files example_python ([''good.py''] @ ''bad.py'' # []) (new_manager [])) =
     calls (loadPythonPlugins_files example_python ([''good.py''] @ []) (new_manager [])) \<and>
   map_sum id calls (destroyPlugins rev
       (loadPythonPlugins_files example_python ([''good.py''] @ ''bad.py'' # []) (new_manager []))) =
     map_sum id calls (destroyPlugins rev
       (loadPythonPlugins_files example_python ([''good.py''] @ []) (new_manager [])))"
proof -
  have n: "loader_instance example_loader (absoluteFilePath example_Qt ''/opt/p/native'' ''c.so'') = Some 3"
    "qobject_cast example_loader 3 = None"
    by (simp_all add: example_loader_def absoluteFilePath_def example_facts)
  have p: "''bad.py'' \<noteq> ''__pycache__''"
    "PyImport_ImportModule example_python (moduleName_of ''bad.py'') = Some 21"
    "PyObject_GetAttrString example_python 21 ''create_iaito_plugin'' = Some 31"
    "PyCallable_Check example_python 31"
    "PyObject_CallFunction example_python 31 = Some 41"
    "isPythonToCppPointerConvertible example_python 41 = None"
    by (simp_all add: example_python_def example_module_names)
  note t = module_without_contract_skipped [of example_loader example_Qt "''/opt/p/native''"
      "''c.so''" 3 "[''a.so'']" "[''b.txt'']" "new_manager []" "''bad.py''" example_python 21 31 41 rev]
  from t n have 1: "loadNativePlugins_files example_Qt example_loader ''/opt/p/native''
       ([''a.so''] @ ''c.so'' # [''b.txt'']) (new_manager []) =
     loadNativePlugins_files example_Qt example_loader ''/opt/p/native''
       ([''a.so''] @ [''b.txt'']) (new_manager [])"
    by blast
  note u = module_without_contract_skipped [of example_loader example_Qt "''/opt/p/native''"
      "''c.so''" 3 "[''good.py'']" "[]" "new_manager []" "''bad.py''" example_python 21 31 41 rev]
  from u p have 2: "plugins (loadPythonPlugins_files example_python ([''good.py''] @ ''bad.py'' # []) (new_manager [])) =
     plugins (loadPythonPlugins_files example_python ([''good.py''] @ []) (new_manager [])) \<and>
   calls (loadPythonPlugins_files example_python ([''good.py''] @ ''bad.py'' # []) (new_manager [])) =
     calls (loadPythonPlugins_files example_python ([''good.py''] @ []) (new_manager [])) \<and>
   map_sum id calls (destroyPlugins rev
       (loadPythonPlugins_files example_python ([''good.py''] @ ''bad.py'' # []) (new_manager []))) =
     map_sum id calls (destroyPlugins rev
       (loadPythonPlugins_files example_python ([''good.py''] @ []) (new_manager [])))"
    by blast
  from n p 1 2 show ?thesis by blast
qed

subsection \<open>Search roots\<close>

text \<open>
  C7, as the claim states it, fails: with \<^verbatim>\<open>/opt/p\<close> twice in the extra directories the
  directory is scanned twice, and its plugins are set up and inserted twice.
\<close>

theorem duplicate_root_scanned_twice:
  "IAITO_EXTRA_PLUGIN_DIRS example_Qt = ''/opt/p:/opt/p'' \<and>
   (\<exists>s. loadPlugins example_Qt example_loader example_python True (new_manager example_dirs) = Inr s \<and>
      scanned (messages s) = [''/home/u/plugins'', ''/usr/plugins'', ''/opt/p'', ''/opt/p''] \<and>
      \<not> distinct (scanned (messages s)) \<and>
      plugins s = [Some 10, Some 11, Some 10, Some 11])"
  by (simp add: example_loaded) (simp add: example_Qt_def)

lemma getPluginDirectories_shape:
  "\<exists>appimage. getPluginDirectories Q s =
       map (\<lambda>location. filePath Q location ''plugins'') (standardLocations Q) @ appimage @
       split (listSeparator Q) (IAITO_EXTRA_PLUGIN_DIRS Q) \<and>
     length appimage \<le> 1 \<and> (APPIMAGE Q \<or> appimage = [])"
proof (cases "APPIMAGE Q")
  case False
  then show ?thesis
    by (intro exI [of _ "[]"]) (simp add: getPluginDirectories_def Let_def)
next
  case True
  show ?thesis
  proof (cases "dir_cd Q (dir_cdUp Q (applicationDirPath Q) s) ''share/RadareOrg/Iaito/plugins'' s")
    case None
    with True show ?thesis
      by (intro exI [of _ "[]"]) (simp add: getPluginDirectories_def Let_def)
  next
    case (Some plugdir)
    with True show ?thesis
      by (intro exI [of _ "[plugdir]"]) (simp add: getPluginDirectories_def Let_def)
  qed
qed

text \<open>
  C7, amended. When plugins are enabled, the roots are scanned in this order: the user's
  plugin directory, when it resolves; then the directories of \<^verbatim>\<open>getPluginDirectories\<close>,
  which are the standard locations with \<^verbatim>\<open>plugins\<close> appended, then at most one AppImage
  directory, then the extra paths split at the list separator with empty parts left out.
  Of these, every directory whose absolute path is the user's directory is skipped; the
  others are scanned once for each time they are listed.
\<close>

theorem search_roots_scanned_in_order:
  assumes "loadPlugins Q L P True (new_manager ds) = Inr s"
  shows "\<exists>s2 appimage.
     getPluginDirectories Q s2 =
       map (\<lambda>location. filePath Q location ''plugins'') (standardLocations Q) @ appimage @
       split (listSeparator Q) (IAITO_EXTRA_PLUGIN_DIRS Q) \<and>
     length appimage \<le> 1 \<and> (APPIMAGE Q \<or> appimage = []) \<and>
     scanned (messages s) =
       (if fst (getUserPluginsDirectory Q (new_manager ds)) = [] then []
        else [absolutePath Q (fst (getUserPluginsDirectory Q (new_manager ds)))]) @
       map (absolutePath Q)
         (filter (\<lambda>d. absolutePath Q d \<noteq> fst (getUserPluginsDirectory Q (new_manager ds)))
            (getPluginDirectories Q s2))"
proof -
  obtain user s1 where u: "getUserPluginsDirectory Q (new_manager ds) = (user, s1)"
    by (cases "getUserPluginsDirectory Q (new_manager ds)")
  define s2 where "s2 = (if user \<noteq> [] then loadPluginsFromDir Q L P user True s1 else s1)"
  have m1: "messages s1 = []"
    using getUserPluginsDirectory_state [of Q "new_manager ds"] u by (simp add: new_manager_def)
  have m2: "scanned (messages s2) = (if user = [] then [] else [absolutePath Q user])"
    by (simp add: s2_def loadPluginsFromDir_scanned m1)
  from assms u have s: "s = loadPlugins_dirs Q L P user (getPluginDirectories Q s2) s2"
    by (simp add: loadPlugins_def new_manager_def Let_def s2_def)
  have sc: "scanned (messages s) =
       (if user = [] then [] else [absolutePath Q user]) @
       map (absolutePath Q) (filter (\<lambda>d. absolutePath Q d \<noteq> user) (getPluginDirectories Q s2))"
    by (simp only: s loadPlugins_dirs_scanned m2)
  from getPluginDirectories_shape [of Q s2] obtain appimage where
    "getPluginDirectories Q s2 =
       map (\<lambda>location. filePath Q location ''plugins'') (standardLocations Q) @ appimage @
       split (listSeparator Q) (IAITO_EXTRA_PLUGIN_DIRS Q)"
    "length appimage \<le> 1" "APPIMAGE Q \<or> appimage = []"
    by blast
  with sc u show ?thesis
    by (intro exI [of _ s2] exI [of _ appimage]) simp
qed

theorem search_roots_scanned_in_order_witness:
  "\<exists>s. loadPlugins example_Qt example_loader example_python True (new_manager example_dirs) = Inr s \<and>
     (\<exists>s2 appimage.
        getPluginDirectories example_Qt s2 =
          map (\<lambda>location. filePath example_Qt location ''plugins'') (standardLocations example_Qt) @
          appimage @ split (listSeparator example_Qt) (IAITO_EXTRA_PLUGIN_DIRS example_Qt) \<and>
        length appimage \<le> 1 \<and> (APPIMAGE example_Qt \<or> appimage = []) \<and>
        scanned (messages s) =
          [''/home/u/plugins''] @
          map (absolutePath example_Qt)
            (filter (\<lambda>d. absolutePath example_Qt d \<noteq> ''/home/u/plugins'')
               (getPluginDirectories example_Qt s2)))"
  using search_roots_scanned_in_order [OF example_loaded] example_loaded
  by (simp add: example_user example_facts)

subsection \<open>Teardown\<close>






subsection \<open>The active plugins\<close>

lemma count_set_up:
  "count_list (concat (map (\<lambda>p. [SetupPlugin p, PushBack p]) ps)) (SetupPlugin q) = count_list ps q"
  by (induction ps) simp_all

lemma count_map_Some: "count_list (map Some ps) (Some q) = count_list ps q"
  by (induction ps) simp_all

text \<open>
  C9, as the claim states it, fails: with the root \<^verbatim>\<open>/opt/p\<close> listed twice the plugin
  object 10 is an element of the vector and \<^verbatim>\<open>setupPlugin()\<close> was called on it twice.
\<close>

theorem plugin_set_up_twice:
  "\<exists>s. loadPlugins example_Qt example_loader example_python True (new_manager example_dirs) = Inr s \<and>
     Some 10 \<in> set (plugins s) \<and> count_list (calls s) (SetupPlugin 10) = 2"
  by (simp add: example_loaded)

text \<open>
  C9, amended. After \<^verbatim>\<open>loadPlugins\<close> on a fresh manager every element of the plugin
  vector is a non-null pointer, and the calls on plugins are, element by element,
  \<^verbatim>\<open>setupPlugin()\<close> on the plugin followed at once by its insertion, and nothing else:
  \<^verbatim>\<open>setupPlugin()\<close> was called on a plugin as many times as the vector holds it, once
  for a plugin it holds once. On the Python path a conversion that succeeds and gives a
  null pointer makes \<^verbatim>\<open>loadPythonPlugin\<close> return null, and the loop goes on without a
  call or an insertion.
\<close>

theorem active_plugins_set_up_before_insertion:
  "(loadPlugins Q L P enablePlugins (new_manager ds) = Inr s \<longrightarrow>
      (\<exists>ps. plugins s = map Some ps \<and>
            calls s = concat (map (\<lambda>p. [SetupPlugin p, PushBack p]) ps)) \<and>
      (\<forall>p. count_list (calls s) (SetupPlugin p) = count_list (plugins s) (Some p))) \<and>
   (fileName \<noteq> ''__pycache__'' \<and>
    PyImport_ImportModule P (moduleName_of fileName) = Some pluginModule \<and>
    PyObject_GetAttrString P pluginModule ''create_iaito_plugin'' = Some createPluginFunc \<and>
    PyCallable_Check P createPluginFunc \<and>
    PyObject_CallFunction P createPluginFunc = Some pluginObject \<and>
    isPythonToCppPointerConvertible P pluginObject = Some pythonToCpp \<and>
    pythonToCpp pluginObject = None \<longrightarrow>
      fst (loadPythonPlugin P (moduleName_of fileName) t) = None \<and>
      plugins (loadPythonPlugins_files P (fileName # rest) t) =
        plugins (loadPythonPlugins_files P rest t) \<and>
      calls (loadPythonPlugins_files P (fileName # rest) t) =
        calls (loadPythonPlugins_files P rest t))"
proof (intro conjI impI)
  assume "loadPlugins Q L P enablePlugins (new_manager ds) = Inr s"
  then have "well_loaded s" by (rule loadPlugins_well_loaded)
  then obtain ps where ps: "plugins s = map Some ps"
      "calls s = concat (map (\<lambda>p. [SetupPlugin p, PushBack p]) ps)"
    by (auto simp: well_loaded_def set_up_def)
  then show "\<exists>ps. plugins s = map Some ps \<and>
            calls s = concat (map (\<lambda>p. [SetupPlugin p, PushBack p]) ps)"
    by blast
  show "\<forall>p. count_list (calls s) (SetupPlugin p) = count_list (plugins s) (Some p)"
    by (simp only: ps count_set_up count_map_Some) simp
next
  assume a: "fileName \<noteq> ''__pycache__'' \<and>
    PyImport_ImportModule P (moduleName_of fileName) = Some pluginModule \<and>
    PyObject_GetAttrString P pluginModule ''create_iaito_plugin'' = Some createPluginFunc \<and>
    PyCallable_Check P createPluginFunc \<and>
    PyObject_CallFunction P createPluginFunc = Some pluginObject \<and>
    isPythonToCppPointerConvertible P pluginObject = Some pythonToCpp \<and>
    pythonToCpp pluginObject = None"
  then show "fst (loadPythonPlugin P (moduleName_of fileName) t) = None"
    by (simp add: loadPythonPlugin_def)
  from a have n: "python_plugin P fileName = None"
    using python_plugin_null [of fileName P pluginModule createPluginFunc pluginObject pythonToCpp]
    by simp
  from python_files_skip [OF n, of "[]" rest t]
  show "plugins (loadPythonPlugins_files P (fileName # rest) t) =
        plugins (loadPythonPlugins_files P rest t)"
    and "calls (loadPythonPlugins_files P (fileName # rest) t) =
        calls (loadPythonPlugins_files P rest t)"
    by simp_all
qed

theorem active_plugins_set_up_before_insertion_witness:
  "(\<exists>s. loadPlugins example_Qt example_loader example_python True (new_manager example_dirs) = Inr s \<and>
      (\<exists>ps. plugins s = map Some ps \<and>
            calls s = concat (map (\<lambda>p. [SetupPlugin p, PushBack p]) ps)) \<and>
      (\<forall>p. count_list (calls s) (SetupPlugin p) = count_list (plugins s) (Some p))) \<and>
   ''null.py'' \<noteq> ''__pycache__'' \<and>
   PyImport_ImportModule example_python (moduleName_of ''null.py'') = Some 22 \<and>
   PyObject_GetAttrString example_python 22 ''create_iaito_plugin'' = Some 32 \<and>
   PyCallable_Check example_python 32 \<and>
   PyObject_CallFunction example_python 32 = Some 42 \<and>
   isPythonToCppPointerConvertible example_python 42 = Some (\<lambda>obj. None) \<and>
   fst (loadPythonPlugin example_python (moduleName_of ''null.py'') (new_manager [])) = None \<and>
   plugins (loadPythonPlugins_files example_python [''null.py'', ''good.py''] (new_manager [])) =
     plugins (loadPythonPlugins_files example_python [''good.py''] (new_manager [])) \<and>
   calls (loadPythonPlugins_files example_python [''null.py'', ''good.py''] (new_manager [])) =
     calls (loadPythonPlugins_files example_python [''good.py''] (new_manager []))"
proof -
  have p: "''null.py'' \<noteq> ''__pycache__''"
    "PyImport_ImportModule example_python (moduleName_of ''null.py'') = Some 22"
    "PyObject_GetAttrString example_python 22 ''create_iaito_plugin'' = Some 32"
    "PyCallable_Check example_python 32"
    "PyObject_CallFunction example_python 32 = Some 42"
    "isPythonToCppPointerConvertible example_python 42 = Some (\<lambda>obj. None)"
    by (simp_all add: example_python_def example_module_names)
  note t = active_plugins_set_up_before_insertion [of example_Qt example_loader example_python True
      example_dirs _ "''null.py''" 22 32 42 "\<lambda>obj. None" "new_manager []" "[''good.py'']"]
  from t example_loaded have 1:
    "\<exists>s. loadPlugins example_Qt example_loader example_python True (new_manager example_dirs) = Inr s \<and>
      (\<exists>ps. plugins s = map Some ps \<and>
            calls s = concat (map (\<lambda>p. [SetupPlugin p, PushBack p]) ps)) \<and>
      (\<forall>p. count_list (calls s) (SetupPlugin p) = count_list (plugins s) (Some p))"
    by blast
  from t p have 2:
    "fst (loadPythonPlugin example_python (moduleName_of ''null.py'') (new_manager [])) = None \<and>
     plugins (loadPythonPlugins_files example_python [''null.py'', ''good.py''] (new_manager [])) =
       plugins (loadPythonPlugins_files example_python [''good.py''] (new_manager [])) \<and>
     calls (loadPythonPlugins_files example_python [''null.py'', ''good.py''] (new_manager [])) =
       calls (loadPythonPlugins_files example_python [''good.py''] (new_manager []))"
    by blast
  from p 1 2 show ?thesis by blast
qed

end
